theory Spec2Isabelle
  imports Complex_Main "HOL-Library.AList" "HOL-Library.Multiset"
begin

section \<open>Data model\<close>

text \<open>
  The event records handled by \<^verbatim>\<open>assets/js/app-refactored.js\<close> and
  \<^verbatim>\<open>assets/js/filters.js\<close>. A field that may be \<^verbatim>\<open>undefined\<close> is an option.
  Coordinates are real numbers. A distance is a JavaScript number that the
  haversine formula computes in IEEE doubles: it is finite or \<^verbatim>\<open>NaN\<close>.
\<close>

datatype number = NaN | Num real

record latlon =
  lat :: real
  lon :: real

record location = latlon +
  loc_name :: string

record relative_time =
  rt_type :: string
  hours :: "int option"
  minutes :: "int option"
  duration_hours :: "int option"
  timezone_offset :: "int option"
  start_offset_hours :: "int option"
  start_offset_minutes :: "int option"
  end_offset_hours :: "int option"
  end_offset_minutes :: "int option"

record event =
  event_id :: "string option"
  title :: string
  category :: "string option"
  start_time :: string
  end_time :: string
  location :: "location option"
  distance :: "number option"
  relative_time :: "relative_time option"
  published_at :: "string option"

section \<open>Speech bubbles: deduplication\<close>

text \<open>
  \<^verbatim>\<open>String.prototype.toLowerCase\<close> and \<^verbatim>\<open>String.prototype.trim\<close> belong to the
  host: they fold and strip by the Unicode tables. Every function below that
  calls them takes them as the parameters \<open>toLowerCase\<close> and \<open>trim\<close>, and what
  is proved holds for every pair of functions.

  On a string of ASCII characters the host functions are the following two:
  the letters A to Z are folded, and the white space stripped is TAB, LF, VT,
  FF, CR and SPACE. They serve for the examples, whose titles are ASCII.
\<close>

definition toLowerCase_ascii_char :: "char \<Rightarrow> char" where
  "toLowerCase_ascii_char c =
     (let n = (of_char c :: nat) in if 65 \<le> n \<and> n \<le> 90 then char_of (n + 32) else c)"

definition toLowerCase_ascii :: "string \<Rightarrow> string" where
  "toLowerCase_ascii s = map toLowerCase_ascii_char s"

definition isWhiteSpace_ascii :: "char \<Rightarrow> bool" where
  "isWhiteSpace_ascii c = ((of_char c :: nat) \<in> {9, 10, 11, 12, 13, 32})"

definition trim_ascii :: "string \<Rightarrow> string" where
  "trim_ascii s = rev (dropWhile isWhiteSpace_ascii (rev (dropWhile isWhiteSpace_ascii s)))"

text \<open>
  The items built by \<^verbatim>\<open>showAllSpeechBubbles\<close>: \<^verbatim>\<open>{event, marker, originalIndex}\<close>,
  and the entries of \<^verbatim>\<open>uniqueMap\<close>, which spread an item and add
  \<^verbatim>\<open>duplicateCount\<close> and \<^verbatim>\<open>duplicates\<close>. The marker type is left open
  (a Leaflet object); \<^verbatim>\<open>markers[index]\<close> beyond the array is \<^verbatim>\<open>undefined\<close>.
\<close>

record 'm event_item =
  item_event :: event
  item_marker :: "'m option"
  originalIndex :: nat

record 'm unique_item = "'m event_item" +
  duplicateCount :: nat
  duplicates :: "event list"

text \<open>The key of \<^verbatim>\<open>deduplicateEvents\<close> (app-refactored.js, lines 855-858):
  the template string \<^verbatim>\<open>`${title}|${startTime}`\<close>.\<close>

definition dedupe_key ::
  "(string \<Rightarrow> string) \<Rightarrow> (string \<Rightarrow> string) \<Rightarrow> ('m, 'x) event_item_scheme \<Rightarrow> string" where
  "dedupe_key toLowerCase trim item =
     (let title' = trim (toLowerCase (title (item_event item)));
          startTime = start_time (item_event item)
      in title' @ ''|'' @ startTime)"

text \<open>
  \<^verbatim>\<open>uniqueMap\<close> is a JavaScript \<^verbatim>\<open>Map\<close>: it keeps its keys in insertion order,
  and \<^verbatim>\<open>set\<close> on a present key keeps the key's position. It is an association
  list; \<^const>\<open>AList.update\<close> replaces in place or appends.
\<close>

definition dedupe_step ::
  "(string \<Rightarrow> string) \<Rightarrow> (string \<Rightarrow> string) \<Rightarrow>
   (string \<times> 'm unique_item) list \<Rightarrow> 'm event_item \<Rightarrow> (string \<times> 'm unique_item) list" where
  "dedupe_step toLowerCase trim uniqueMap item =
     (let key = dedupe_key toLowerCase trim item in
      case map_of uniqueMap key of
        Some existing \<Rightarrow>
          AList.update key
            (existing\<lparr>duplicateCount := duplicateCount existing + 1,
                      duplicates := duplicates existing @ [item_event item]\<rparr>) uniqueMap
      | None \<Rightarrow>
          AList.update key
            (event_item.extend item
               \<lparr>duplicateCount = 1, duplicates = [item_event item]\<rparr>) uniqueMap)"

definition deduplicateEvents ::
  "(string \<Rightarrow> string) \<Rightarrow> (string \<Rightarrow> string) \<Rightarrow> 'm event_item list \<Rightarrow> 'm unique_item list" where
  "deduplicateEvents toLowerCase trim eventItems =
     map snd (foldl (dedupe_step toLowerCase trim) [] eventItems)"

text \<open>\<^verbatim>\<open>showAllSpeechBubbles\<close> (lines 815-829) up to the call of
  \<^verbatim>\<open>deduplicateEvents\<close>; what follows only draws the groups.\<close>

definition maxBubbles :: nat where
  "maxBubbles = 30"

definition eventItems_of :: "event list \<Rightarrow> 'm list \<Rightarrow> 'm event_item list" where
  "eventItems_of eventsToShow markers =
     map (\<lambda>(ev, index).
            \<lparr>item_event = ev,
             item_marker = (if index < length markers then Some (markers ! index) else None),
             originalIndex = index\<rparr>)
         (zip eventsToShow [0..<length eventsToShow])"

definition showAllSpeechBubbles ::
  "(string \<Rightarrow> string) \<Rightarrow> (string \<Rightarrow> string) \<Rightarrow> event list \<Rightarrow> 'm list \<Rightarrow>
   'm unique_item list" where
  "showAllSpeechBubbles toLowerCase trim events markers =
     (let eventsToShow = take maxBubbles events;
          eventItems = eventItems_of eventsToShow markers
      in deduplicateEvents toLowerCase trim eventItems)"

text \<open>The simplified module \<^verbatim>\<open>assets/js/speech-bubbles.js\<close> (lines 76-97) has its
  own \<^verbatim>\<open>deduplicateEvents\<close>, keyed by the title alone. \<^verbatim>\<open>titleMap.get(key)\<close> is
  never \<^verbatim>\<open>undefined\<close> after the \<^verbatim>\<open>set\<close> above it; \<^verbatim>\<open>group[0]\<close> of an empty
  array would be \<^verbatim>\<open>undefined\<close>.\<close>

definition titleMap_step ::
  "(string \<Rightarrow> string) \<Rightarrow> (string \<Rightarrow> string) \<Rightarrow>
   (string \<times> event list) list \<Rightarrow> event \<Rightarrow> (string \<times> event list) list" where
  "titleMap_step toLowerCase trim titleMap ev =
     (let key = trim (toLowerCase (title ev));
          titleMap1 = (if map_of titleMap key = None then AList.update key [] titleMap
                       else titleMap)
      in case map_of titleMap1 key of
           Some group' \<Rightarrow> AList.update key (group' @ [ev]) titleMap1
         | None \<Rightarrow> titleMap1)"

record title_item =
  ti_event :: "event option"
  groupSize :: nat
  ti_duplicateCount :: nat

definition deduplicateEvents_by_title ::
  "(string \<Rightarrow> string) \<Rightarrow> (string \<Rightarrow> string) \<Rightarrow> event list \<Rightarrow> title_item list" where
  "deduplicateEvents_by_title toLowerCase trim events =
     map (\<lambda>(title', group').
            \<lparr>ti_event = (case group' of [] \<Rightarrow> None | e # _ \<Rightarrow> Some e),
             groupSize = length group',
             ti_duplicateCount = length group'\<rparr>)
         (foldl (titleMap_step toLowerCase trim) [] events)"

text \<open>
  Grouping by a key, stated independently of the loop: the keys in the order in
  which they are first seen, and for each key the items that carry it, in input
  order. The first of them is the representative.
\<close>

fun first_seen :: "'a list \<Rightarrow> 'a list" where
  "first_seen [] = []"
| "first_seen (x # xs) = x # removeAll x (first_seen xs)"

definition group_of ::
  "('m event_item \<Rightarrow> 'k) \<Rightarrow> 'k \<Rightarrow> 'm event_item list \<Rightarrow> 'm unique_item" where
  "group_of key k items =
     (let members = filter (\<lambda>i. key i = k) items
      in event_item.extend (hd members)
           \<lparr>duplicateCount = length members, duplicates = map item_event members\<rparr>)"

definition groups_by ::
  "('m event_item \<Rightarrow> 'k) \<Rightarrow> 'm event_item list \<Rightarrow> 'm unique_item list" where
  "groups_by key items = map (\<lambda>k. group_of key k items) (first_seen (map key items))"

text \<open>The identity key in the words of the specification: the identifier when
  present, otherwise the normalised title, the start time and the coordinates.\<close>

datatype identity =
  ById string
| ByFields string string "(real \<times> real) option"

definition spec_identity_key ::
  "(string \<Rightarrow> string) \<Rightarrow> (string \<Rightarrow> string) \<Rightarrow> event \<Rightarrow> identity" where
  "spec_identity_key toLowerCase trim ev =
     (case event_id ev of
        Some i \<Rightarrow> ById i
      | None \<Rightarrow>
          ByFields (trim (toLowerCase (title ev))) (start_time ev)
            (map_option (\<lambda>l. (lat l, lon l)) (location ev)))"

definition title_key :: "(string \<Rightarrow> string) \<Rightarrow> (string \<Rightarrow> string) \<Rightarrow> event \<Rightarrow> string" where
  "title_key toLowerCase trim ev = trim (toLowerCase (title ev))"

definition title_group :: "(event \<Rightarrow> 'k) \<Rightarrow> 'k \<Rightarrow> event list \<Rightarrow> title_item" where
  "title_group key k events =
     (let members = filter (\<lambda>e. key e = k) events
      in \<lparr>ti_event = Some (hd members), groupSize = length members,
          ti_duplicateCount = length members\<rparr>)"

text \<open>The contents of the two maps after a prefix of the input.\<close>

definition grouped ::
  "('m event_item \<Rightarrow> string) \<Rightarrow> 'm event_item list \<Rightarrow> (string \<times> 'm unique_item) list" where
  "grouped key ps = map (\<lambda>k. (k, group_of key k ps)) (first_seen (map key ps))"

definition titled :: "(event \<Rightarrow> string) \<Rightarrow> event list \<Rightarrow> (string \<times> event list) list" where
  "titled key ps = map (\<lambda>k. (k, filter (\<lambda>e. key e = k) ps)) (first_seen (map key ps))"

section \<open>Dates and the system clock\<close>

text \<open>
  A \<^verbatim>\<open>Date\<close> is its time value, the milliseconds since 1970-01-01T00:00:00Z.
  The lunar arithmetic of \<^verbatim>\<open>getNextFullMoonMorning\<close> multiplies by a
  non-integral number of milliseconds, so time values are exact rationals here:
  the rounding of IEEE doubles and the truncation of a time value to whole
  milliseconds are below the resolution of this model. The host time zone is a
  fixed offset of \<open>tz\<close> minutes east of UTC, without daylight-saving changes.
  The getters and setters follow ECMAScript's \<^verbatim>\<open>LocalTime\<close>, \<^verbatim>\<open>Day\<close>,
  \<^verbatim>\<open>TimeWithinDay\<close>, \<^verbatim>\<open>MakeTime\<close>, \<^verbatim>\<open>MakeDate\<close> and \<^verbatim>\<open>UTC\<close>.
\<close>

type_synonym instant = rat

definition msPerMinute :: int where "msPerMinute = 60000"
definition msPerHour :: int where "msPerHour = 3600000"
definition msPerDay :: int where "msPerDay = 86400000"

definition LocalTime :: "int \<Rightarrow> instant \<Rightarrow> rat" where
  "LocalTime tz t = t + of_int (tz * msPerMinute)"

definition UTC :: "int \<Rightarrow> rat \<Rightarrow> instant" where
  "UTC tz t = t - of_int (tz * msPerMinute)"

definition Day :: "rat \<Rightarrow> int" where
  "Day t = \<lfloor>t / of_int msPerDay\<rfloor>"

definition TimeWithinDay :: "rat \<Rightarrow> rat" where
  "TimeWithinDay t = t - of_int (Day t * msPerDay)"

definition HourFromTime :: "rat \<Rightarrow> int" where
  "HourFromTime t = \<lfloor>t / of_int msPerHour\<rfloor> mod 24"

definition MinFromTime :: "rat \<Rightarrow> int" where
  "MinFromTime t = \<lfloor>t / of_int msPerMinute\<rfloor> mod 60"

definition SecFromTime :: "rat \<Rightarrow> int" where
  "SecFromTime t = \<lfloor>t / 1000\<rfloor> mod 60"

definition WeekDay :: "rat \<Rightarrow> int" where
  "WeekDay t = (Day t + 4) mod 7"

definition MakeTime :: "int \<Rightarrow> int \<Rightarrow> int \<Rightarrow> int \<Rightarrow> int" where
  "MakeTime h m s ms = h * msPerHour + m * msPerMinute + s * 1000 + ms"

definition MakeDate :: "int \<Rightarrow> rat \<Rightarrow> rat" where
  "MakeDate day time = of_int (day * msPerDay) + time"

definition getHours :: "int \<Rightarrow> instant \<Rightarrow> int" where
  "getHours tz t = HourFromTime (LocalTime tz t)"

definition getMinutes :: "int \<Rightarrow> instant \<Rightarrow> int" where
  "getMinutes tz t = MinFromTime (LocalTime tz t)"

definition getSeconds :: "int \<Rightarrow> instant \<Rightarrow> int" where
  "getSeconds tz t = SecFromTime (LocalTime tz t)"

definition getDay :: "int \<Rightarrow> instant \<Rightarrow> int" where
  "getDay tz t = WeekDay (LocalTime tz t)"

text \<open>\<^verbatim>\<open>d.setHours(h, m, s, ms)\<close> with all four arguments.\<close>

definition setHours :: "int \<Rightarrow> instant \<Rightarrow> int \<Rightarrow> int \<Rightarrow> int \<Rightarrow> int \<Rightarrow> instant" where
  "setHours tz t h m s ms = UTC tz (MakeDate (Day (LocalTime tz t)) (of_int (MakeTime h m s ms)))"

text \<open>\<^verbatim>\<open>d.setHours(h)\<close> with the hour alone keeps minutes, seconds and
  milliseconds; \<^verbatim>\<open>d.setMinutes(m)\<close> keeps the hour, seconds and milliseconds.\<close>

definition setHours1 :: "int \<Rightarrow> instant \<Rightarrow> int \<Rightarrow> instant" where
  "setHours1 tz t h =
     (let lt = LocalTime tz t
      in UTC tz (MakeDate (Day lt)
           (of_int (h * msPerHour) + (TimeWithinDay lt - of_int (HourFromTime lt * msPerHour)))))"

definition setMinutes1 :: "int \<Rightarrow> instant \<Rightarrow> int \<Rightarrow> instant" where
  "setMinutes1 tz t m =
     (let lt = LocalTime tz t
      in UTC tz (MakeDate (Day lt)
           (of_int (m * msPerMinute) + (TimeWithinDay lt - of_int (MinFromTime lt * msPerMinute)))))"

text \<open>\<^verbatim>\<open>d.setDate(d.getDate() + n)\<close>: \<^verbatim>\<open>MakeDay\<close> of the same year and month with the
  day of the month advanced by \<open>n\<close> is the day number advanced by \<open>n\<close>.\<close>

definition setDate_plus :: "int \<Rightarrow> instant \<Rightarrow> int \<Rightarrow> instant" where
  "setDate_plus tz t n =
     (let lt = LocalTime tz t in UTC tz (MakeDate (Day lt + n) (TimeWithinDay lt)))"

text \<open>The civil calendar behind \<^verbatim>\<open>getFullYear\<close>, \<^verbatim>\<open>getMonth\<close> (0 to 11) and
  \<^verbatim>\<open>getDate\<close>, and behind \<^verbatim>\<open>new Date(year, month, date)\<close>: the proleptic
  Gregorian calendar, by eras of 400 years counted from 1 March.\<close>

definition civil_from_days :: "int \<Rightarrow> int \<times> int \<times> int" where
  "civil_from_days z =
     (let z' = z + 719468;
          era = z' div 146097;
          doe = z' - era * 146097;
          yoe = (doe - doe div 1460 + doe div 36524 - doe div 146096) div 365;
          doy = doe - (365 * yoe + yoe div 4 - yoe div 100);
          mp = (5 * doy + 2) div 153;
          d = doy - (153 * mp + 2) div 5 + 1;
          m = (if mp < 10 then mp + 3 else mp - 9);
          y = yoe + era * 400 + (if m \<le> 2 then 1 else 0)
      in (y, m - 1, d))"

definition days_from_civil :: "int \<Rightarrow> int \<Rightarrow> int \<Rightarrow> int" where
  "days_from_civil year month date =
     (let ym = year * 12 + month;
          y0 = ym div 12;
          m = ym mod 12 + 1;
          y = y0 - (if m \<le> 2 then 1 else 0);
          era = y div 400;
          yoe = y - era * 400;
          doy = (153 * (if m > 2 then m - 3 else m + 9) + 2) div 5;
          doe = yoe * 365 + yoe div 4 - yoe div 100 + doy
      in era * 146097 + doe - 719468 + (date - 1))"

definition getFullYear :: "int \<Rightarrow> instant \<Rightarrow> int" where
  "getFullYear tz t = fst (civil_from_days (Day (LocalTime tz t)))"

definition getMonth :: "int \<Rightarrow> instant \<Rightarrow> int" where
  "getMonth tz t = fst (snd (civil_from_days (Day (LocalTime tz t))))"

definition getDate :: "int \<Rightarrow> instant \<Rightarrow> int" where
  "getDate tz t = snd (snd (civil_from_days (Day (LocalTime tz t))))"

definition Date_ymd :: "int \<Rightarrow> int \<Rightarrow> int \<Rightarrow> int \<Rightarrow> instant" where
  "Date_ymd tz year month date = UTC tz (MakeDate (days_from_civil year month date) 0)"

text \<open>
  The system clock. Every \<^verbatim>\<open>new Date()\<close> reads it, and one call of
  \<^verbatim>\<open>filterEvents\<close> reads it up to three times; a clock is the sequence of the
  readings still to come, and reading takes the first.
\<close>

type_synonym clock = "nat \<Rightarrow> instant"

definition newDate :: "clock \<Rightarrow> instant \<times> clock" where
  "newDate clk = (clk 0, \<lambda>n. clk (Suc n))"

section \<open>EventFilter (assets/js/filters.js)\<close>

text \<open>
  \<^verbatim>\<open>calculateDistance\<close> (lines 27-36) is the haversine formula in IEEE doubles,
  through the host's \<^verbatim>\<open>Math.sin\<close>, \<^verbatim>\<open>Math.cos\<close>, \<^verbatim>\<open>Math.sqrt\<close> and
  \<^verbatim>\<open>Math.atan2\<close>. Rounding can take the haversine term above 1, and the result
  is then \<^verbatim>\<open>NaN\<close>. The number it returns is the parameter \<open>calculateDistance\<close>
  of the functions below, and what is proved holds for every such function.
  \<^verbatim>\<open>distance > maxDistance\<close> is false for \<^verbatim>\<open>NaN\<close>.
\<close>

definition greater_than :: "number \<Rightarrow> real \<Rightarrow> bool" where
  "greater_than x y = (case x of Num v \<Rightarrow> v > y | NaN \<Rightarrow> False)"

text \<open>\<^verbatim>\<open>getNextSunrise\<close> (lines 80-90).\<close>

definition getNextSunrise :: "int \<Rightarrow> clock \<Rightarrow> instant \<times> clock" where
  "getNextSunrise tz clk =
     (let (now, clk1) = newDate clk;
          sunrise = setHours tz now 6 0 0 0;
          sunrise = (if getHours tz now \<ge> 6 then setDate_plus tz sunrise 1 else sunrise)
      in (sunrise, clk1))"

text \<open>\<^verbatim>\<open>getNextSundayPrimetime\<close> (lines 96-123).\<close>

definition getNextSundayPrimetime :: "int \<Rightarrow> clock \<Rightarrow> instant \<times> clock" where
  "getNextSundayPrimetime tz clk =
     (let (now, clk1) = newDate clk;
          result = now;
          currentDay = getDay tz now;
          daysUntilSunday =
            (if currentDay = 0 then
               (let currentTime = getHours tz now * 60 + getMinutes tz now;
                    primetimeMinutes = 20 * 60 + 15
                in if currentTime \<ge> primetimeMinutes then 7 else 0)
             else 7 - currentDay);
          result = setDate_plus tz result daysUntilSunday;
          result = setHours tz result 20 15 0 0
      in (result, clk1))"

text \<open>\<^verbatim>\<open>getNextFullMoonMorning\<close> (lines 129-157). The known full moon is
  \<^verbatim>\<open>Date.UTC(2000, 0, 6, 18, 14, 0)\<close>; the \<^verbatim>\<open>while\<close> loop of lines 147-149 is
  \<open>fullMoon_loop\<close>.\<close>

definition knownFullMoon :: instant where
  "knownFullMoon = MakeDate (days_from_civil 2000 0 6) (of_int (MakeTime 18 14 0 0))"

definition lunarCycle :: rat where
  "lunarCycle = 29.53058770576 * 24 * 60 * 60 * 1000"

function fullMoon_loop :: "instant \<Rightarrow> instant \<Rightarrow> instant" where
  "fullMoon_loop fullMoon nextSunday =
     (if fullMoon \<le> nextSunday then fullMoon_loop (fullMoon + lunarCycle) nextSunday
      else fullMoon)"
  by pat_completeness auto
termination
proof (relation "measure (\<lambda>(fullMoon, nextSunday). nat (\<lfloor>(nextSunday - fullMoon) / lunarCycle\<rfloor> + 1))")
  show "wf (measure (\<lambda>(fullMoon, nextSunday). nat (\<lfloor>(nextSunday - fullMoon) / lunarCycle\<rfloor> + 1)))"
    by simp
next
  fix fullMoon nextSunday :: rat
  assume le: "fullMoon \<le> nextSunday"
  have pos: "0 < lunarCycle"
    by (simp add: lunarCycle_def)
  have "(nextSunday - (fullMoon + lunarCycle)) / lunarCycle = (nextSunday - fullMoon) / lunarCycle - 1"
    using pos by (simp add: field_simps)
  then have step: "\<lfloor>(nextSunday - (fullMoon + lunarCycle)) / lunarCycle\<rfloor> =
      \<lfloor>(nextSunday - fullMoon) / lunarCycle\<rfloor> - 1"
    by simp
  have "0 \<le> (nextSunday - fullMoon) / lunarCycle"
    using le pos by simp
  then have "0 \<le> \<lfloor>(nextSunday - fullMoon) / lunarCycle\<rfloor>"
    by simp
  with step show "((fullMoon + lunarCycle, nextSunday), (fullMoon, nextSunday))
      \<in> measure (\<lambda>(fullMoon, nextSunday). nat (\<lfloor>(nextSunday - fullMoon) / lunarCycle\<rfloor> + 1))"
    by simp
qed

declare fullMoon_loop.simps [simp del]

definition getNextFullMoonMorning :: "int \<Rightarrow> clock \<Rightarrow> instant \<times> clock" where
  "getNextFullMoonMorning tz clk =
     (let (primetime, clk1) = getNextSundayPrimetime tz clk;
          nextSunday = setHours tz primetime 0 0 0 0;
          (now, clk2) = newDate clk1;
          timeSinceKnownFullMoon = now - knownFullMoon;
          cyclesSinceKnown = \<lfloor>timeSinceKnownFullMoon / lunarCycle\<rfloor>;
          fullMoon = knownFullMoon + of_int cyclesSinceKnown * lunarCycle;
          fullMoon = fullMoon_loop fullMoon nextSunday;
          dayAfterFullMoon = fullMoon;
          dayAfterFullMoon = setDate_plus tz dayAfterFullMoon 1;
          dayAfterFullMoon = setHours tz dayAfterFullMoon 6 0 0 0
      in (dayAfterFullMoon, clk2))"

text \<open>\<^verbatim>\<open>getMaxEventTime\<close> (lines 43-74): it reads the clock itself, and so do the
  three boundary functions it calls.\<close>

definition getMaxEventTime :: "int \<Rightarrow> clock \<Rightarrow> string \<Rightarrow> instant \<times> clock" where
  "getMaxEventTime tz clk timeFilter =
     (let (now, clk1) = newDate clk
      in if timeFilter = ''sunrise'' then getNextSunrise tz clk1
         else if timeFilter = ''sunday-primetime'' then getNextSundayPrimetime tz clk1
         else if timeFilter = ''full-moon'' then getNextFullMoonMorning tz clk1
         else if timeFilter = ''6h'' then (now + 6 * 60 * 60 * 1000, clk1)
         else if timeFilter = ''12h'' then (now + 12 * 60 * 60 * 1000, clk1)
         else if timeFilter = ''24h'' then (now + 24 * 60 * 60 * 1000, clk1)
         else if timeFilter = ''48h'' then (now + 48 * 60 * 60 * 1000, clk1)
         else if timeFilter = ''all'' then (Date_ymd tz (getFullYear tz now + 10) 11 31, clk1)
         else getNextSunrise tz clk1)"

text \<open>
  \<^verbatim>\<open>filterEvents\<close> (lines 166-217). The callback assigns \<^verbatim>\<open>event.distance\<close> on the
  event object it is given, and \<^verbatim>\<open>Array.prototype.filter\<close> returns the very
  objects of the input array. Events therefore live in a store, and the arrays
  hold references. \<^verbatim>\<open>new Date(event.start_time)\<close> is the host's date parser,
  the parameter \<open>parseDate\<close>; an invalid date compares false with everything.
  \<^verbatim>\<open>this.storage.isBookmarked\<close> is \<^verbatim>\<open>bookmarks.includes\<close> (storage.js, line 173).
\<close>

type_synonym ref = nat
type_synonym heap = "ref \<Rightarrow> event"

record filters =
  maxDistance :: real
  timeFilter :: string
  filter_category :: string

definition isBookmarked :: "string list \<Rightarrow> string option \<Rightarrow> bool" where
  "isBookmarked bookmarks eventId =
     (case eventId of Some i \<Rightarrow> i \<in> set bookmarks | None \<Rightarrow> False)"

definition filterEvents_callback ::
  "(string \<Rightarrow> instant option) \<Rightarrow> (real \<Rightarrow> real \<Rightarrow> real \<Rightarrow> real \<Rightarrow> number) \<Rightarrow> string list \<Rightarrow>
   instant \<Rightarrow> real \<Rightarrow> string \<Rightarrow> latlon option \<Rightarrow> heap \<Rightarrow> ref \<Rightarrow> bool \<times> heap" where
  "filterEvents_callback parseDate calculateDistance bookmarks maxEventTime maxDistance' category'
     referenceLocation h r =
     (let ev = h r in
      if isBookmarked bookmarks (event_id ev) then
        (case (referenceLocation, location ev) of
           (Some rl, Some el) \<Rightarrow>
             (let distance' = calculateDistance (lat rl) (lon rl) (lat el) (lon el)
              in (True, h(r := ev\<lparr>distance := Some distance'\<rparr>)))
         | _ \<Rightarrow> (True, h))
      else if (case parseDate (start_time ev) of
                 Some eventTime \<Rightarrow> eventTime > maxEventTime
               | None \<Rightarrow> False) then (False, h)
      else if category' \<noteq> ''all'' \<and> category ev \<noteq> Some category' then (False, h)
      else
        (case (referenceLocation, location ev) of
           (Some rl, Some el) \<Rightarrow>
             (let distance' = calculateDistance (lat rl) (lon rl) (lat el) (lon el);
                  h' = h(r := ev\<lparr>distance := Some distance'\<rparr>)
              in if greater_than distance' maxDistance' then (False, h') else (True, h'))
         | _ \<Rightarrow> (True, h)))"

fun Array_filter :: "(heap \<Rightarrow> ref \<Rightarrow> bool \<times> heap) \<Rightarrow> heap \<Rightarrow> ref list \<Rightarrow> ref list \<times> heap" where
  "Array_filter callback h [] = ([], h)"
| "Array_filter callback h (r # rs) =
     (let (keep, h1) = callback h r;
          (kept, h2) = Array_filter callback h1 rs
      in (if keep then r # kept else kept, h2))"

definition filterEvents ::
  "int \<Rightarrow> (string \<Rightarrow> instant option) \<Rightarrow> (real \<Rightarrow> real \<Rightarrow> real \<Rightarrow> real \<Rightarrow> number) \<Rightarrow> string list \<Rightarrow>
   clock \<Rightarrow> heap \<Rightarrow> ref list \<Rightarrow> filters \<Rightarrow> latlon option \<Rightarrow> ref list \<times> heap \<times> clock" where
  "filterEvents tz parseDate calculateDistance bookmarks clk h events filters' referenceLocation =
     (let (maxEventTime, clk1) = getMaxEventTime tz clk (timeFilter filters');
          maxDistance' = maxDistance filters';
          category' = filter_category filters';
          (filtered, h1) =
            Array_filter
              (filterEvents_callback parseDate calculateDistance bookmarks maxEventTime
                 maxDistance' category' referenceLocation) h events
      in (filtered, h1, clk1))"

text \<open>
  \<^verbatim>\<open>countCategoriesUnderFilters\<close> (lines 226-266). \<^verbatim>\<open>categoryCounts\<close> is the plain
  object \<^verbatim>\<open>{}\<close>, whose prototype is \<^verbatim>\<open>Object.prototype\<close>. Its own properties are
  an association list. Reading \<^verbatim>\<open>categoryCounts[cat]\<close> finds an own property,
  or else what \<^verbatim>\<open>Object.prototype\<close> holds under that name: itself under
  \<^verbatim>\<open>__proto__\<close>, a built-in function under eleven other names, and nothing
  (\<^verbatim>\<open>undefined\<close>) otherwise. Writing \<^verbatim>\<open>categoryCounts[cat] = v\<close> makes or
  updates an own property, except under \<^verbatim>\<open>__proto__\<close>, where the setter of
  \<^verbatim>\<open>Object.prototype\<close> takes the value and ignores it unless it is an object
  or null; the values written here are numbers and strings.
  \<^verbatim>\<open>x || 0\<close> is 0 for a falsy \<open>x\<close>, and \<^verbatim>\<open>+ 1\<close> adds to a number and appends
  \<^verbatim>\<open>"1"\<close> to anything else, after turning it into a string. The text of a
  built-in function is the host's, the parameter \<open>nativeSource\<close>.
\<close>

datatype jsvalue =
  JSUndefined
| JSNaN
| JSNumber nat
| JSString string
| JSObjectPrototype
| JSNativeFunction string

definition objectPrototypeFunctions :: "string list" where
  "objectPrototypeFunctions =
     [''constructor'', ''__defineGetter__'', ''__defineSetter__'', ''hasOwnProperty'',
      ''__lookupGetter__'', ''__lookupSetter__'', ''isPrototypeOf'', ''propertyIsEnumerable'',
      ''toString'', ''valueOf'', ''toLocaleString'']"

definition object_get :: "(string \<times> jsvalue) list \<Rightarrow> string \<Rightarrow> jsvalue" where
  "object_get obj key =
     (case map_of obj key of
        Some v \<Rightarrow> v
      | None \<Rightarrow>
          if key = ''__proto__'' then JSObjectPrototype
          else if key \<in> set objectPrototypeFunctions then JSNativeFunction key
          else JSUndefined)"

definition object_set :: "(string \<times> jsvalue) list \<Rightarrow> string \<Rightarrow> jsvalue \<Rightarrow> (string \<times> jsvalue) list" where
  "object_set obj key v = (if key = ''__proto__'' then obj else AList.update key v obj)"

definition or_zero :: "jsvalue \<Rightarrow> jsvalue" where
  "or_zero x =
     (case x of
        JSUndefined \<Rightarrow> JSNumber 0
      | JSNaN \<Rightarrow> JSNumber 0
      | JSNumber n \<Rightarrow> JSNumber n
      | JSString s \<Rightarrow> if s = [] then JSNumber 0 else JSString s
      | JSObjectPrototype \<Rightarrow> JSObjectPrototype
      | JSNativeFunction f \<Rightarrow> JSNativeFunction f)"

definition plus_one :: "(string \<Rightarrow> string) \<Rightarrow> jsvalue \<Rightarrow> jsvalue" where
  "plus_one nativeSource x =
     (case x of
        JSUndefined \<Rightarrow> JSNaN
      | JSNaN \<Rightarrow> JSNaN
      | JSNumber n \<Rightarrow> JSNumber (n + 1)
      | JSString s \<Rightarrow> JSString (s @ ''1'')
      | JSObjectPrototype \<Rightarrow> JSString (''[object Object]'' @ ''1'')
      | JSNativeFunction f \<Rightarrow> JSString (nativeSource f @ ''1''))"

definition count_category ::
  "(string \<Rightarrow> string) \<Rightarrow> (string \<times> jsvalue) list \<Rightarrow> event \<Rightarrow> (string \<times> jsvalue) list" where
  "count_category nativeSource categoryCounts ev =
     (let cat = (case category ev of
                   Some c \<Rightarrow> if c = [] then ''uncategorized'' else c
                 | None \<Rightarrow> ''uncategorized'')
      in object_set categoryCounts cat
           (plus_one nativeSource (or_zero (object_get categoryCounts cat))))"

definition countCategories_callback ::
  "(string \<Rightarrow> instant option) \<Rightarrow> (real \<Rightarrow> real \<Rightarrow> real \<Rightarrow> real \<Rightarrow> number) \<Rightarrow> (string \<Rightarrow> string) \<Rightarrow>
   string list \<Rightarrow> instant \<Rightarrow> real \<Rightarrow> latlon option \<Rightarrow>
   heap \<Rightarrow> (string \<times> jsvalue) list \<Rightarrow> ref \<Rightarrow> (string \<times> jsvalue) list" where
  "countCategories_callback parseDate calculateDistance nativeSource bookmarks maxEventTime
     maxDistance' referenceLocation h categoryCounts r =
     (let ev = h r in
      if isBookmarked bookmarks (event_id ev) then count_category nativeSource categoryCounts ev
      else if (case parseDate (start_time ev) of
                 Some eventTime \<Rightarrow> eventTime > maxEventTime
               | None \<Rightarrow> False) then categoryCounts
      else if (case (referenceLocation, location ev) of
                 (Some rl, Some el) \<Rightarrow>
                   greater_than (calculateDistance (lat rl) (lon rl) (lat el) (lon el))
                     maxDistance'
               | _ \<Rightarrow> False) then categoryCounts
      else count_category nativeSource categoryCounts ev)"

definition countCategoriesUnderFilters ::
  "int \<Rightarrow> (string \<Rightarrow> instant option) \<Rightarrow> (real \<Rightarrow> real \<Rightarrow> real \<Rightarrow> real \<Rightarrow> number) \<Rightarrow> (string \<Rightarrow> string) \<Rightarrow>
   string list \<Rightarrow> clock \<Rightarrow> heap \<Rightarrow> ref list \<Rightarrow> filters \<Rightarrow> latlon option \<Rightarrow>
   (string \<times> jsvalue) list \<times> clock" where
  "countCategoriesUnderFilters tz parseDate calculateDistance nativeSource bookmarks clk h events
     filters' referenceLocation =
     (let (maxEventTime, clk1) = getMaxEventTime tz clk (timeFilter filters');
          maxDistance' = maxDistance filters';
          categoryCounts =
            foldl (countCategories_callback parseDate calculateDistance nativeSource bookmarks
                     maxEventTime maxDistance' referenceLocation h) [] events
      in (categoryCounts, clk1))"

text \<open>The category under which \<^verbatim>\<open>countCategoriesUnderFilters\<close> counts an event, and
  the number that a value of \<^verbatim>\<open>categoryCounts\<close> contributes to a sum of counts.\<close>

definition category_name :: "event \<Rightarrow> string" where
  "category_name ev =
     (case category ev of
        Some c \<Rightarrow> if c = [] then ''uncategorized'' else c
      | None \<Rightarrow> ''uncategorized'')"

definition count_of :: "jsvalue \<Rightarrow> nat" where
  "count_of v = (case v of JSNumber n \<Rightarrow> n | _ \<Rightarrow> 0)"

definition is_count :: "jsvalue \<Rightarrow> bool" where
  "is_count v = (case v of JSNumber n \<Rightarrow> True | _ \<Rightarrow> False)"

definition total_count :: "(string \<times> jsvalue) list \<Rightarrow> nat" where
  "total_count obj = sum_list (map (\<lambda>kv. count_of (snd kv)) obj)"

definition all_counts :: "(string \<times> jsvalue) list \<Rightarrow> bool" where
  "all_counts obj = list_all (\<lambda>kv. is_count (snd kv)) obj"

text \<open>What the callback of \<^verbatim>\<open>filterEvents\<close> decides and writes for one event, as
  predicates on the event record: whether it is kept, and whether a distance is
  computed for it.\<close>

definition passes_time :: "(string \<Rightarrow> instant option) \<Rightarrow> instant \<Rightarrow> event \<Rightarrow> bool" where
  "passes_time parseDate maxEventTime ev =
     (case parseDate (start_time ev) of
        Some eventTime \<Rightarrow> eventTime \<le> maxEventTime
      | None \<Rightarrow> True)"

definition passes_category :: "string \<Rightarrow> event \<Rightarrow> bool" where
  "passes_category category' ev = (category' = ''all'' \<or> category ev = Some category')"

definition distance_to ::
  "(real \<Rightarrow> real \<Rightarrow> real \<Rightarrow> real \<Rightarrow> number) \<Rightarrow> latlon option \<Rightarrow> event \<Rightarrow> number option" where
  "distance_to calculateDistance referenceLocation ev =
     (case (referenceLocation, location ev) of
        (Some rl, Some el) \<Rightarrow> Some (calculateDistance (lat rl) (lon rl) (lat el) (lon el))
      | _ \<Rightarrow> None)"

definition passes_distance ::
  "(real \<Rightarrow> real \<Rightarrow> real \<Rightarrow> real \<Rightarrow> number) \<Rightarrow> real \<Rightarrow> latlon option \<Rightarrow> event \<Rightarrow> bool" where
  "passes_distance calculateDistance maxDistance' referenceLocation ev =
     (case distance_to calculateDistance referenceLocation ev of
        Some (Num d) \<Rightarrow> d \<le> maxDistance'
      | Some NaN \<Rightarrow> True
      | None \<Rightarrow> True)"

definition is_kept ::
  "(string \<Rightarrow> instant option) \<Rightarrow> (real \<Rightarrow> real \<Rightarrow> real \<Rightarrow> real \<Rightarrow> number) \<Rightarrow> string list \<Rightarrow>
   instant \<Rightarrow> real \<Rightarrow> string \<Rightarrow> latlon option \<Rightarrow> event \<Rightarrow> bool" where
  "is_kept parseDate calculateDistance bookmarks maxEventTime maxDistance' category'
     referenceLocation ev =
     (isBookmarked bookmarks (event_id ev) \<or>
      (passes_time parseDate maxEventTime ev \<and> passes_category category' ev \<and>
       passes_distance calculateDistance maxDistance' referenceLocation ev))"

definition is_measured ::
  "(string \<Rightarrow> instant option) \<Rightarrow> string list \<Rightarrow> instant \<Rightarrow> string \<Rightarrow> event \<Rightarrow> bool" where
  "is_measured parseDate bookmarks maxEventTime category' ev =
     (isBookmarked bookmarks (event_id ev) \<or>
      (passes_time parseDate maxEventTime ev \<and> passes_category category' ev))"

definition write_distance ::
  "(string \<Rightarrow> instant option) \<Rightarrow> (real \<Rightarrow> real \<Rightarrow> real \<Rightarrow> real \<Rightarrow> number) \<Rightarrow> string list \<Rightarrow>
   instant \<Rightarrow> string \<Rightarrow> latlon option \<Rightarrow> event \<Rightarrow> event" where
  "write_distance parseDate calculateDistance bookmarks maxEventTime category' referenceLocation ev =
     (case distance_to calculateDistance referenceLocation ev of
        Some d \<Rightarrow>
          if is_measured parseDate bookmarks maxEventTime category' ev
          then ev\<lparr>distance := Some d\<rparr> else ev
      | None \<Rightarrow> ev)"

section \<open>EventUtils: template events (assets/js/app-refactored.js)\<close>

text \<open>\<^verbatim>\<open>String(n)\<close> for an integer and \<^verbatim>\<open>padStart(2, '0')\<close>.\<close>

fun digits :: "nat \<Rightarrow> string" where
  "digits n = (if n < 10 then [char_of (48 + n)] else digits (n div 10) @ [char_of (48 + n mod 10)])"

definition String_of_int :: "int \<Rightarrow> string" where
  "String_of_int i = (if i < 0 then CHR ''-'' # digits (nat (- i)) else digits (nat i))"

definition padStart2 :: "string \<Rightarrow> string" where
  "padStart2 s = replicate (2 - length s) CHR ''0'' @ s"

text \<open>\<^verbatim>\<open>formatDateTime\<close> (lines 1179-1187) and \<^verbatim>\<open>formatDateTimeWithTZ\<close>
  (lines 1195-1197).\<close>

definition formatDateTime :: "int \<Rightarrow> instant \<Rightarrow> string" where
  "formatDateTime tz date =
     (let year = getFullYear tz date;
          month = padStart2 (String_of_int (getMonth tz date + 1));
          day = padStart2 (String_of_int (getDate tz date));
          hours' = padStart2 (String_of_int (getHours tz date));
          minutes' = padStart2 (String_of_int (getMinutes tz date));
          seconds = padStart2 (String_of_int (getSeconds tz date))
      in String_of_int year @ ''-'' @ month @ ''-'' @ day @ ''T'' @
         hours' @ '':'' @ minutes' @ '':'' @ seconds)"

definition formatDateTimeWithTZ :: "int \<Rightarrow> instant \<Rightarrow> string \<Rightarrow> string" where
  "formatDateTimeWithTZ tz date tzString = formatDateTime tz date @ tzString"

text \<open>
  The callback of \<^verbatim>\<open>events.map\<close> in \<^verbatim>\<open>processTemplateEvents\<close> (lines 1107-1171).
  \<^verbatim>\<open>if (spec.hours)\<close> holds for a number that is present and not zero, and
  \<^verbatim>\<open>x || d\<close> is \<open>d\<close> for an absent or zero \<open>x\<close>. The numbers of a specification are
  integers; a whole-hour \<^verbatim>\<open>timezone_offset\<close> has \<^verbatim>\<open>(tzOffset % 1) * 60 = 0\<close>.
  The branch \<^verbatim>\<open>sunrise_relative\<close> calls \<^verbatim>\<open>filterModule.getNextSunrise()\<close>, which
  reads the clock again.
\<close>

definition truthy :: "int option \<Rightarrow> bool" where
  "truthy x = (case x of Some n \<Rightarrow> n \<noteq> 0 | None \<Rightarrow> False)"

definition or_default :: "int option \<Rightarrow> int \<Rightarrow> int" where
  "or_default x d = (if truthy x then the x else d)"

definition add_offsets :: "int \<Rightarrow> instant \<Rightarrow> int option \<Rightarrow> int option \<Rightarrow> instant" where
  "add_offsets tz t h m =
     (let t = (if truthy h then setHours1 tz t (getHours tz t + the h) else t);
          t = (if truthy m then setMinutes1 tz t (getMinutes tz t + the m) else t)
      in t)"

definition processTemplateEvent :: "int \<Rightarrow> instant \<Rightarrow> clock \<Rightarrow> event \<Rightarrow> event \<times> clock" where
  "processTemplateEvent tz now clk ev =
     (case relative_time ev of
        None \<Rightarrow> (ev, clk)
      | Some spec \<Rightarrow>
          (let processedEvent = ev;
               type = rt_type spec;
               (processedEvent, clk) =
                 (if type = ''offset'' then
                    (let startTime = add_offsets tz now (hours spec) (minutes spec);
                         durationMs = or_default (duration_hours spec) 2 * 60 * 60 * 1000;
                         endTime = startTime + of_int durationMs;
                         tzOffset = or_default (timezone_offset spec) 0
                     in if tzOffset \<noteq> 0 then
                          (let sign = (if tzOffset \<ge> 0 then ''+'' else ''-'');
                               hours' = \<bar>tzOffset\<bar>;
                               minutes' = 0;
                               tzString = sign @ padStart2 (String_of_int hours') @ '':'' @
                                          padStart2 (String_of_int minutes')
                           in (processedEvent
                                 \<lparr>start_time := formatDateTimeWithTZ tz startTime tzString,
                                  end_time := formatDateTimeWithTZ tz endTime tzString\<rparr>, clk))
                        else
                          (processedEvent
                             \<lparr>start_time := formatDateTime tz startTime,
                              end_time := formatDateTime tz endTime\<rparr>, clk))
                  else if type = ''sunrise_relative'' then
                    (let (sunrise, clk1) = getNextSunrise tz clk;
                         startTime = add_offsets tz sunrise (start_offset_hours spec)
                                       (start_offset_minutes spec);
                         endTime = add_offsets tz sunrise (end_offset_hours spec)
                                     (end_offset_minutes spec)
                     in (processedEvent
                           \<lparr>start_time := formatDateTime tz startTime,
                            end_time := formatDateTime tz endTime\<rparr>, clk1))
                  else (processedEvent, clk))
           in (processedEvent\<lparr>published_at := Some (formatDateTime tz now)\<rparr>, clk)))"

fun Array_map :: "(clock \<Rightarrow> event \<Rightarrow> event \<times> clock) \<Rightarrow> clock \<Rightarrow> event list \<Rightarrow> event list \<times> clock" where
  "Array_map callback clk [] = ([], clk)"
| "Array_map callback clk (ev # evs) =
     (let (ev', clk1) = callback clk ev;
          (evs', clk2) = Array_map callback clk1 evs
      in (ev' # evs', clk2))"

definition processTemplateEvents :: "int \<Rightarrow> clock \<Rightarrow> event list \<Rightarrow> event list \<times> clock" where
  "processTemplateEvents tz clk events =
     (let (now, clk1) = newDate clk
      in Array_map (processTemplateEvent tz now) clk1 events)"


text \<open>The number of the minute that holds a time value; the day, the hour and the
  minute of a time value are functions of it.\<close>

definition minuteNumber :: "rat \<Rightarrow> int" where
  "minuteNumber t = \<lfloor>t / of_int msPerMinute\<rfloor>"

section \<open>Properties of the deduplication\<close>

lemma counts_update_new:
  "map_of m k = None \<Longrightarrow>
   sum_list (map (duplicateCount \<circ> snd) (AList.update k v m)) =
   sum_list (map (duplicateCount \<circ> snd) m) + duplicateCount v"
  by (induction m) auto

lemma counts_update_old:
  "map_of m k = Some g \<Longrightarrow> duplicateCount v = duplicateCount g + 1 \<Longrightarrow>
   sum_list (map (duplicateCount \<circ> snd) (AList.update k v m)) =
   sum_list (map (duplicateCount \<circ> snd) m) + 1"
  by (induction m) auto

lemma counts_dedupe_step:
  "sum_list (map (duplicateCount \<circ> snd) ((dedupe_step toLowerCase trim) m x)) =
   sum_list (map (duplicateCount \<circ> snd) m) + 1"
  by (auto simp: dedupe_step_def Let_def event_item.extend_def counts_update_new
        counts_update_old split: option.splits)

lemma counts_foldl:
  "sum_list (map (duplicateCount \<circ> snd) (foldl (dedupe_step toLowerCase trim) m xs)) =
   sum_list (map (duplicateCount \<circ> snd) m) + length xs"
  by (induction xs arbitrary: m) (auto simp: counts_dedupe_step)

lemma members_update_new:
  "map_of m k = None \<Longrightarrow>
   mset (concat (map (duplicates \<circ> snd) (AList.update k v m))) =
   mset (concat (map (duplicates \<circ> snd) m)) + mset (duplicates v)"
  by (induction m) auto

lemma members_update_old:
  "map_of m k = Some g \<Longrightarrow> duplicates v = duplicates g @ [e] \<Longrightarrow>
   mset (concat (map (duplicates \<circ> snd) (AList.update k v m))) =
   mset (concat (map (duplicates \<circ> snd) m)) + {#e#}"
  by (induction m) auto

lemma members_dedupe_step:
  "mset (concat (map (duplicates \<circ> snd) ((dedupe_step toLowerCase trim) m x))) =
   mset (concat (map (duplicates \<circ> snd) m)) + {#item_event x#}"
  by (auto simp: dedupe_step_def Let_def event_item.extend_def members_update_new
        members_update_old split: option.splits)

lemma members_foldl:
  "mset (concat (map (duplicates \<circ> snd) (foldl (dedupe_step toLowerCase trim) m xs))) =
   mset (concat (map (duplicates \<circ> snd) m)) + mset (map item_event xs)"
  by (induction xs arbitrary: m) (auto simp: members_dedupe_step)

lemma item_event_eventItems_of: "map item_event (eventItems_of es ms) = es"
proof -
  have "map item_event (eventItems_of es ms) = map fst (zip es [0..<length es])"
    unfolding eventItems_of_def by (simp add: case_prod_unfold comp_def)
  then show ?thesis by simp
qed

lemma length_eventItems_of: "length (eventItems_of es ms) = length es"
  by (simp add: eventItems_of_def)

lemma set_first_seen: "set (first_seen xs) = set xs"
  by (induction xs) auto

lemma distinct_first_seen: "distinct (first_seen xs)"
  by (induction xs) (auto simp: distinct_removeAll set_first_seen)

lemma first_seen_snoc:
  "first_seen (xs @ [k]) = (if k \<in> set xs then first_seen xs else first_seen xs @ [k])"
  by (induction xs) (auto simp: set_first_seen)

lemma map_of_tabulate:
  "map_of (map (\<lambda>k. (k, f k)) ks) k = (if k \<in> set ks then Some (f k) else None)"
  by (induction ks) auto

lemma update_tabulate_old:
  "distinct ks \<Longrightarrow> k \<in> set ks \<Longrightarrow>
   AList.update k v (map (\<lambda>k. (k, f k)) ks) = map (\<lambda>k'. (k', if k' = k then v else f k')) ks"
  by (induction ks) auto

lemma map_of_snoc_new:
  "k \<notin> fst ` set m \<Longrightarrow> map_of (m @ [(k, u)]) k = Some u"
  by (induction m) auto

lemma update_snoc_same:
  "k \<notin> fst ` set m \<Longrightarrow> AList.update k v (m @ [(k, u)]) = m @ [(k, v)]"
  by (induction m) auto

lemma update_new:
  "k \<notin> fst ` set m \<Longrightarrow> AList.update k v m = m @ [(k, v)]"
  by (induction m) auto

lemma map_of_new:
  "k \<notin> fst ` set m \<Longrightarrow> map_of m k = None"
  by (induction m) auto

lemma group_of_snoc_other:
  "key x \<noteq> k \<Longrightarrow> group_of key k (ps @ [x]) = group_of key k ps"
  by (simp add: group_of_def)

lemma group_of_snoc_same_old:
  assumes "key x \<in> key ` set ps"
  shows "group_of key (key x) (ps @ [x]) =
    (group_of key (key x) ps)
      \<lparr>duplicateCount := duplicateCount (group_of key (key x) ps) + 1,
       duplicates := duplicates (group_of key (key x) ps) @ [item_event x]\<rparr>"
proof -
  from assms have "filter (\<lambda>i. key i = key x) ps \<noteq> []"
    by (auto simp: filter_empty_conv)
  then show ?thesis
    by (simp add: group_of_def Let_def event_item.extend_def)
qed

lemma group_of_snoc_same_new:
  assumes "key x \<notin> key ` set ps"
  shows "group_of key (key x) (ps @ [x]) =
    event_item.extend x \<lparr>duplicateCount = 1, duplicates = [item_event x]\<rparr>"
proof -
  from assms have "\<forall>i\<in>set ps. key i \<noteq> key x"
    by (metis imageI)
  then have "filter (\<lambda>i. key i = key x) ps = []"
    by (simp add: filter_empty_conv)
  then show ?thesis
    by (simp add: group_of_def Let_def)
qed

lemma grouped_Nil: "grouped (dedupe_key toLowerCase trim) [] = []"
  by (simp add: grouped_def)

lemma dedupe_step_grouped: "(dedupe_step toLowerCase trim) (grouped (dedupe_key toLowerCase trim) ps) x = grouped (dedupe_key toLowerCase trim) (ps @ [x])"
proof (cases "(dedupe_key toLowerCase trim) x \<in> (dedupe_key toLowerCase trim) ` set ps")
  case True
  then have "(dedupe_step toLowerCase trim) (grouped (dedupe_key toLowerCase trim) ps) x =
      map (\<lambda>k'. (k', if k' = (dedupe_key toLowerCase trim) x then group_of (dedupe_key toLowerCase trim) ((dedupe_key toLowerCase trim) x) (ps @ [x])
                     else group_of (dedupe_key toLowerCase trim) k' ps))
        (first_seen (map (dedupe_key toLowerCase trim) ps))"
    by (simp add: dedupe_step_def grouped_def map_of_tabulate update_tabulate_old
        group_of_snoc_same_old Let_def set_first_seen distinct_first_seen)
  also have "\<dots> = grouped (dedupe_key toLowerCase trim) (ps @ [x])"
    using True by (auto simp: grouped_def first_seen_snoc group_of_snoc_other)
  finally show ?thesis .
next
  case False
  then have a: "\<forall>i\<in>set ps. (dedupe_key toLowerCase trim) x \<noteq> (dedupe_key toLowerCase trim) i"
    by (metis imageI)
  have c: "(dedupe_key toLowerCase trim) x \<notin> fst ` set (grouped (dedupe_key toLowerCase trim) ps)"
    using False by (simp add: grouped_def set_first_seen image_image)
  have "(dedupe_step toLowerCase trim) (grouped (dedupe_key toLowerCase trim) ps) x =
      grouped (dedupe_key toLowerCase trim) ps @ [((dedupe_key toLowerCase trim) x, group_of (dedupe_key toLowerCase trim) ((dedupe_key toLowerCase trim) x) (ps @ [x]))]"
    using False
    by (simp add: dedupe_step_def Let_def map_of_new [OF c] update_new [OF c]
        group_of_snoc_same_new)
  also have "\<dots> = grouped (dedupe_key toLowerCase trim) (ps @ [x])"
    using False a by (auto simp: grouped_def first_seen_snoc group_of_snoc_other set_first_seen)
  finally show ?thesis .
qed

lemma foldl_dedupe_step_grouped: "foldl (dedupe_step toLowerCase trim) [] ps = grouped (dedupe_key toLowerCase trim) ps"
  by (induction ps rule: rev_induct) (simp_all add: dedupe_step_grouped grouped_Nil)

lemma titled_Nil: "titled (title_key toLowerCase trim) [] = []"
  by (simp add: titled_def)

lemma titleMap_step_titled: "(titleMap_step toLowerCase trim) (titled (title_key toLowerCase trim) ps) x = titled (title_key toLowerCase trim) (ps @ [x])"
proof (cases "(title_key toLowerCase trim) x \<in> (title_key toLowerCase trim) ` set ps")
  case True
  then have "(titleMap_step toLowerCase trim) (titled (title_key toLowerCase trim) ps) x =
      map (\<lambda>k'. (k', if k' = (title_key toLowerCase trim) x then filter (\<lambda>e. (title_key toLowerCase trim) e = (title_key toLowerCase trim) x) (ps @ [x])
                     else filter (\<lambda>e. (title_key toLowerCase trim) e = k') ps))
        (first_seen (map (title_key toLowerCase trim) ps))"
    by (simp add: titleMap_step_def titled_def map_of_tabulate update_tabulate_old Let_def
        set_first_seen distinct_first_seen title_key_def [symmetric])
  also have "\<dots> = titled (title_key toLowerCase trim) (ps @ [x])"
    using True by (auto simp: titled_def first_seen_snoc)
  finally show ?thesis .
next
  case False
  then have a: "\<forall>e\<in>set ps. (title_key toLowerCase trim) e \<noteq> (title_key toLowerCase trim) x"
    by (metis imageI)
  then have b: "filter (\<lambda>e. (title_key toLowerCase trim) e = (title_key toLowerCase trim) x) ps = []"
    by (simp add: filter_empty_conv)
  have c: "(title_key toLowerCase trim) x \<notin> fst ` set (titled (title_key toLowerCase trim) ps)"
    using False by (simp add: titled_def set_first_seen image_image)
  have "(titleMap_step toLowerCase trim) (titled (title_key toLowerCase trim) ps) x = titled (title_key toLowerCase trim) ps @ [((title_key toLowerCase trim) x, [x])]"
    by (simp add: titleMap_step_def Let_def title_key_def [symmetric] map_of_new [OF c]
        update_new [OF c] map_of_snoc_new [OF c] update_snoc_same [OF c] map_add_def)
  also have "\<dots> = titled (title_key toLowerCase trim) (ps @ [x])"
    using False a b by (auto simp: titled_def first_seen_snoc set_first_seen)
  finally show ?thesis .
qed

lemma foldl_titleMap_step: "foldl (titleMap_step toLowerCase trim) [] ps = titled (title_key toLowerCase trim) ps"
  by (induction ps rule: rev_induct) (simp_all add: titleMap_step_titled titled_Nil)

lemma title_members_nonempty:
  "k \<in> set (map key events) \<Longrightarrow> filter (\<lambda>e. key e = k) events \<noteq> []"
  by (auto simp: filter_empty_conv)


text \<open>
  Claim C1, as the code has it. For every \<open>toLowerCase\<close> and \<open>trim\<close> of the host,
  \<^verbatim>\<open>deduplicateEvents\<close> of app-refactored.js groups the items by the string made
  of \<open>trim (toLowerCase title)\<close>, a bar and the start time, and
  \<^verbatim>\<open>deduplicateEvents\<close> of speech-bubbles.js groups the events by
  \<open>trim (toLowerCase title)\<close> alone. Neither reads the identifier or the
  location. The groups come in the order in which their keys are first seen,
  and the first-seen event of a key is the representative of its group.
\<close>

theorem deduplicateEvents_groups_by_title_and_start:
  "deduplicateEvents toLowerCase trim items =
     groups_by (\<lambda>i. trim (toLowerCase (title (item_event i))) @ ''|'' @ start_time (item_event i))
       items \<and>
   deduplicateEvents_by_title toLowerCase trim events =
     map (\<lambda>k. title_group (\<lambda>e. trim (toLowerCase (title e))) k events)
       (first_seen (map (\<lambda>e. trim (toLowerCase (title e))) events))"
proof
  have key: "dedupe_key toLowerCase trim =
      (\<lambda>i :: 'a event_item. trim (toLowerCase (title (item_event i))) @ ''|'' @ start_time (item_event i))"
    by (simp add: fun_eq_iff dedupe_key_def Let_def)
  have "deduplicateEvents toLowerCase trim items = groups_by (dedupe_key toLowerCase trim) items"
    by (simp add: deduplicateEvents_def foldl_dedupe_step_grouped grouped_def groups_by_def
        comp_def)
  then show "deduplicateEvents toLowerCase trim items =
      groups_by (\<lambda>i. trim (toLowerCase (title (item_event i))) @ ''|'' @ start_time (item_event i))
        items"
    by (simp only: key)
next
  have key: "title_key toLowerCase trim = (\<lambda>e. trim (toLowerCase (title e)))"
    by (simp add: fun_eq_iff title_key_def)
  have "\<And>k. k \<in> set (first_seen (map (title_key toLowerCase trim) events)) \<Longrightarrow>
      (case filter (\<lambda>e. title_key toLowerCase trim e = k) events of
         [] \<Rightarrow> None | e # _ \<Rightarrow> Some e) =
      Some (hd (filter (\<lambda>e. title_key toLowerCase trim e = k) events))"
    using title_members_nonempty [of _ "title_key toLowerCase trim" events]
    by (auto simp: set_first_seen split: list.splits)
  then have "deduplicateEvents_by_title toLowerCase trim events =
      map (\<lambda>k. title_group (title_key toLowerCase trim) k events)
        (first_seen (map (title_key toLowerCase trim) events))"
    by (simp add: deduplicateEvents_by_title_def foldl_titleMap_step titled_def title_group_def
        Let_def comp_def)
  then show "deduplicateEvents_by_title toLowerCase trim events =
      map (\<lambda>k. title_group (\<lambda>e. trim (toLowerCase (title e))) k events)
        (first_seen (map (\<lambda>e. trim (toLowerCase (title e))) events))"
    by (simp only: key)
qed

text \<open>
  Claim C1 as stated fails: two events with different identifiers, whose titles
  differ only in case and surrounding blanks and whose start times agree, are
  two groups under the identity key of the specification and one group of two
  in the code. The titles are ASCII.
\<close>

theorem deduplicateEvents_identity_key_counterexample:
  "length (deduplicateEvents toLowerCase_ascii trim_ascii
     [\<lparr>item_event =
         \<lparr>event_id = Some ''a1'', title = ''Market Day'', category = Some ''culture'',
          start_time = ''2026-07-20T10:00:00'', end_time = ''2026-07-20T12:00:00'',
          location = None, distance = None, relative_time = None, published_at = None\<rparr>,
       item_marker = (None :: nat option), originalIndex = 0\<rparr>,
      \<lparr>item_event =
         \<lparr>event_id = Some ''b2'', title = '' market day'', category = Some ''culture'',
          start_time = ''2026-07-20T10:00:00'', end_time = ''2026-07-20T12:00:00'',
          location = None, distance = None, relative_time = None, published_at = None\<rparr>,
       item_marker = None, originalIndex = 1\<rparr>]) = 1 \<and>
   length (groups_by (\<lambda>i. spec_identity_key toLowerCase_ascii trim_ascii (item_event i))
     [\<lparr>item_event =
         \<lparr>event_id = Some ''a1'', title = ''Market Day'', category = Some ''culture'',
          start_time = ''2026-07-20T10:00:00'', end_time = ''2026-07-20T12:00:00'',
          location = None, distance = None, relative_time = None, published_at = None\<rparr>,
       item_marker = (None :: nat option), originalIndex = 0\<rparr>,
      \<lparr>item_event =
         \<lparr>event_id = Some ''b2'', title = '' market day'', category = Some ''culture'',
          start_time = ''2026-07-20T10:00:00'', end_time = ''2026-07-20T12:00:00'',
          location = None, distance = None, relative_time = None, published_at = None\<rparr>,
       item_marker = None, originalIndex = 1\<rparr>]) = 2"
  by code_simp

text \<open>
  Claim C9. \<^verbatim>\<open>showAllSpeechBubbles\<close> deduplicates the first 30 events only: the
  counts of the groups add up to the smaller of the length of the list and 30,
  and the members of the groups are, as a multiset, exactly the first 30
  events, so that no event from index 30 on is in a group.
\<close>

theorem showAllSpeechBubbles_first_maxBubbles:
  "sum_list (map duplicateCount (showAllSpeechBubbles toLowerCase trim events markers)) =
     min (length events) 30 \<and>
   mset (concat (map duplicates (showAllSpeechBubbles toLowerCase trim events markers))) =
     mset (take 30 events)"
proof
  have "sum_list (map duplicateCount (showAllSpeechBubbles toLowerCase trim events markers)) =
      length (eventItems_of (take 30 events) markers)"
    using counts_foldl [of toLowerCase trim "[]" "eventItems_of (take 30 events) markers"]
    by (simp add: showAllSpeechBubbles_def deduplicateEvents_def maxBubbles_def comp_def)
  then show "sum_list (map duplicateCount (showAllSpeechBubbles toLowerCase trim events markers)) =
      min (length events) 30"
    by (simp add: length_eventItems_of)
next
  have "mset (concat (map duplicates (showAllSpeechBubbles toLowerCase trim events markers))) =
      mset (map item_event (eventItems_of (take 30 events) markers))"
    using members_foldl [of toLowerCase trim "[]" "eventItems_of (take 30 events) markers"]
    by (simp add: showAllSpeechBubbles_def deduplicateEvents_def maxBubbles_def comp_def)
  then show "mset (concat (map duplicates (showAllSpeechBubbles toLowerCase trim events markers))) =
      mset (take 30 events)"
    by (simp add: item_event_eventItems_of)
qed

section \<open>Properties of the time boundaries\<close>

lemma LocalTime_UTC: "LocalTime tz (UTC tz x) = x"
  by (simp add: LocalTime_def UTC_def)

lemma Day_MakeDate:
  assumes "0 \<le> t" "t < of_int msPerDay"
  shows "Day (MakeDate d t) = d"
proof -
  have pos: "(0::rat) < of_int msPerDay"
    by (simp add: msPerDay_def)
  have "MakeDate d t / of_int msPerDay = of_int d + t / of_int msPerDay"
    using pos by (simp add: MakeDate_def field_simps)
  moreover have "\<lfloor>t / of_int msPerDay\<rfloor> = 0"
    using assms pos by (simp add: floor_eq_iff)
  ultimately show ?thesis
    by (simp add: Day_def)
qed

lemma TimeWithinDay_MakeDate:
  assumes "0 \<le> t" "t < of_int msPerDay"
  shows "TimeWithinDay (MakeDate d t) = t"
  using Day_MakeDate [OF assms, of d] by (simp add: TimeWithinDay_def MakeDate_def)

lemma TimeWithinDay_bounds: "0 \<le> TimeWithinDay t \<and> TimeWithinDay t < of_int msPerDay"
proof -
  have pos: "(0::rat) < of_int msPerDay"
    by (simp add: msPerDay_def)
  have a: "of_int \<lfloor>t / of_int msPerDay\<rfloor> * of_int msPerDay \<le> t"
    by (metis pos pos_le_divide_eq of_int_floor_le)
  have "t / of_int msPerDay < of_int \<lfloor>t / of_int msPerDay\<rfloor> + 1"
    by linarith
  then have b: "t < (of_int \<lfloor>t / of_int msPerDay\<rfloor> + 1) * of_int msPerDay"
    by (metis pos pos_divide_less_eq)
  from a b show ?thesis
    by (simp add: TimeWithinDay_def Day_def algebra_simps)
qed

lemma Day_setHours:
  "0 \<le> MakeTime h m s ms \<Longrightarrow> MakeTime h m s ms < msPerDay \<Longrightarrow>
   Day (LocalTime tz (setHours tz t h m s ms)) = Day (LocalTime tz t)"
  by (simp add: setHours_def LocalTime_UTC Day_MakeDate)

lemma TimeWithinDay_setHours:
  "0 \<le> MakeTime h m s ms \<Longrightarrow> MakeTime h m s ms < msPerDay \<Longrightarrow>
   TimeWithinDay (LocalTime tz (setHours tz t h m s ms)) = of_int (MakeTime h m s ms)"
  by (simp add: setHours_def LocalTime_UTC TimeWithinDay_MakeDate)

lemma Day_setDate_plus: "Day (LocalTime tz (setDate_plus tz t n)) = Day (LocalTime tz t) + n"
  using TimeWithinDay_bounds [of "LocalTime tz t"]
  by (simp add: setDate_plus_def Let_def LocalTime_UTC Day_MakeDate)

lemma TimeWithinDay_setDate_plus:
  "TimeWithinDay (LocalTime tz (setDate_plus tz t n)) = TimeWithinDay (LocalTime tz t)"
  using TimeWithinDay_bounds [of "LocalTime tz t"]
  by (simp add: setDate_plus_def Let_def LocalTime_UTC TimeWithinDay_MakeDate)

lemma MakeTime_6: "MakeTime 6 0 0 0 = 21600000" "0 \<le> MakeTime 6 0 0 0" "MakeTime 6 0 0 0 < msPerDay"
  by (simp_all add: MakeTime_def msPerHour_def msPerDay_def)


text \<open>
  Claim C4. The boundary returned by \<^verbatim>\<open>getNextSunrise\<close> is at 06:00:00.000 local
  time, on the local day of the clock reading when its local hour is below 6,
  and on the next day when the hour is 6 or more.
\<close>

theorem getNextSunrise_today_or_tomorrow:
  "Day (LocalTime tz (fst (getNextSunrise tz clk))) =
     Day (LocalTime tz (clk 0)) + (if getHours tz (clk 0) < 6 then 0 else 1) \<and>
   TimeWithinDay (LocalTime tz (fst (getNextSunrise tz clk))) = of_int (MakeTime 6 0 0 0)"
  by (simp add: getNextSunrise_def newDate_def Let_def Day_setDate_plus Day_setHours
      TimeWithinDay_setDate_plus TimeWithinDay_setHours MakeTime_6(2,3))

text \<open>At 05:59:59 local time the boundary is 06:00:00 of the same day, and at
  06:00:00 it is 06:00:00 of the next day (zone UTC+2).\<close>

theorem getNextSunrise_today_or_tomorrow_witness:
  "getHours 120 1784087999000 = 5 \<and>
   fst (getNextSunrise 120 (\<lambda>_. 1784087999000)) = 1784088000000 \<and>
   Day (LocalTime 120 (fst (getNextSunrise 120 (\<lambda>_. 1784087999000)))) = Day (LocalTime 120 1784087999000) \<and>
   getHours 120 1784088000000 = 6 \<and>
   fst (getNextSunrise 120 (\<lambda>_. 1784088000000)) = 1784174400000 \<and>
   Day (LocalTime 120 (fst (getNextSunrise 120 (\<lambda>_. 1784088000000)))) = Day (LocalTime 120 1784088000000) + 1"
proof -
  have h5: "getHours 120 1784087999000 = 5" by code_simp
  have h6: "getHours 120 1784088000000 = 6" by code_simp
  have v5: "fst (getNextSunrise 120 (\<lambda>_. 1784087999000)) = 1784088000000" by code_simp
  have v6: "fst (getNextSunrise 120 (\<lambda>_. 1784088000000)) = 1784174400000" by code_simp
  show ?thesis
    using getNextSunrise_today_or_tomorrow [of 120 "\<lambda>_. 1784087999000"]
      getNextSunrise_today_or_tomorrow [of 120 "\<lambda>_. 1784088000000"] h5 h6 v5 v6
    by simp
qed

lemma lunarCycle_pos: "0 < lunarCycle"
  by (simp add: lunarCycle_def)

lemma fullMoon_loop_steps:
  "\<exists>n. fullMoon_loop fullMoon nextSunday = fullMoon + of_nat n * lunarCycle \<and>
       nextSunday < fullMoon + of_nat n * lunarCycle \<and>
       (\<forall>m<n. fullMoon + of_nat m * lunarCycle \<le> nextSunday)"
proof (induction fullMoon nextSunday rule: fullMoon_loop.induct)
  case (1 fullMoon nextSunday)
  show ?case
  proof (cases "fullMoon \<le> nextSunday")
    case True
    from "1.IH" [OF True] obtain n where
      n: "fullMoon_loop (fullMoon + lunarCycle) nextSunday = fullMoon + lunarCycle + of_nat n * lunarCycle"
        "nextSunday < fullMoon + lunarCycle + of_nat n * lunarCycle"
        "\<forall>m<n. fullMoon + lunarCycle + of_nat m * lunarCycle \<le> nextSunday"
      by blast
    have "\<forall>m<Suc n. fullMoon + of_nat m * lunarCycle \<le> nextSunday"
    proof (intro allI impI)
      fix m assume "m < Suc n"
      show "fullMoon + of_nat m * lunarCycle \<le> nextSunday"
      proof (cases m)
        case 0
        with True show ?thesis by simp
      next
        case (Suc k)
        with \<open>m < Suc n\<close> have "k < n" by simp
        with n(3) have "fullMoon + lunarCycle + of_nat k * lunarCycle \<le> nextSunday" by blast
        with Suc show ?thesis by (simp add: algebra_simps)
      qed
    qed
    moreover have "fullMoon_loop fullMoon nextSunday = fullMoon + of_nat (Suc n) * lunarCycle"
      using True n(1) by (subst fullMoon_loop.simps) (simp add: algebra_simps)
    moreover have "nextSunday < fullMoon + of_nat (Suc n) * lunarCycle"
      using n(2) by (simp add: algebra_simps)
    ultimately show ?thesis by blast
  next
    case False
    then have "fullMoon_loop fullMoon nextSunday = fullMoon + of_nat 0 * lunarCycle"
      by (subst fullMoon_loop.simps) simp
    moreover have "nextSunday < fullMoon + of_nat 0 * lunarCycle"
      using False by simp
    ultimately show ?thesis by blast
  qed
qed

lemma fullMoon_loop_closed:
  "fullMoon_loop fullMoon nextSunday =
     fullMoon + of_int (max 0 (\<lfloor>(nextSunday - fullMoon) / lunarCycle\<rfloor> + 1)) * lunarCycle"
proof (induction fullMoon nextSunday rule: fullMoon_loop.induct)
  case (1 fullMoon nextSunday)
  note pos = lunarCycle_pos
  show ?case
  proof (cases "fullMoon \<le> nextSunday")
    case True
    have "(nextSunday - (fullMoon + lunarCycle)) / lunarCycle = (nextSunday - fullMoon) / lunarCycle - 1"
      using pos by (simp add: field_simps)
    then have step: "\<lfloor>(nextSunday - (fullMoon + lunarCycle)) / lunarCycle\<rfloor> =
        \<lfloor>(nextSunday - fullMoon) / lunarCycle\<rfloor> - 1"
      by simp
    have "0 \<le> (nextSunday - fullMoon) / lunarCycle"
      using True pos by simp
    then have nn: "0 \<le> \<lfloor>(nextSunday - fullMoon) / lunarCycle\<rfloor>"
      by simp
    have "fullMoon_loop fullMoon nextSunday = fullMoon_loop (fullMoon + lunarCycle) nextSunday"
      using True by (subst fullMoon_loop.simps) simp
    also have "\<dots> = fullMoon + lunarCycle +
        of_int (max 0 (\<lfloor>(nextSunday - fullMoon) / lunarCycle\<rfloor>)) * lunarCycle"
      using "1.IH" [OF True] step by simp
    also have "\<dots> = fullMoon +
        of_int (max 0 (\<lfloor>(nextSunday - fullMoon) / lunarCycle\<rfloor> + 1)) * lunarCycle"
      using nn by (simp add: max_def algebra_simps)
    finally show ?thesis .
  next
    case False
    then have "(nextSunday - fullMoon) / lunarCycle < 0"
      using pos by (simp add: divide_neg_pos)
    then have "\<lfloor>(nextSunday - fullMoon) / lunarCycle\<rfloor> < 0"
      by (simp add: floor_less_iff)
    then have "max 0 (\<lfloor>(nextSunday - fullMoon) / lunarCycle\<rfloor> + 1) = 0"
      by linarith
    moreover have "fullMoon_loop fullMoon nextSunday = fullMoon"
      using False by (subst fullMoon_loop.simps) simp
    ultimately show ?thesis by simp
  qed
qed

lemma fullMoon_loop_from_known:
  "fullMoon_loop (knownFullMoon + of_int c * lunarCycle) nextSunday =
     knownFullMoon + of_int (max c (\<lfloor>(nextSunday - knownFullMoon) / lunarCycle\<rfloor> + 1)) * lunarCycle"
proof -
  have "(nextSunday - (knownFullMoon + of_int c * lunarCycle)) / lunarCycle =
      (nextSunday - knownFullMoon) / lunarCycle - of_int c"
    using lunarCycle_pos by (simp add: field_simps)
  then have "\<lfloor>(nextSunday - (knownFullMoon + of_int c * lunarCycle)) / lunarCycle\<rfloor> =
      \<lfloor>(nextSunday - knownFullMoon) / lunarCycle\<rfloor> - c"
    by simp
  then have "max 0 (\<lfloor>(nextSunday - (knownFullMoon + of_int c * lunarCycle)) / lunarCycle\<rfloor> + 1) =
      max c (\<lfloor>(nextSunday - knownFullMoon) / lunarCycle\<rfloor> + 1) - c"
    by linarith
  then have "fullMoon_loop (knownFullMoon + of_int c * lunarCycle) nextSunday =
      knownFullMoon + of_int c * lunarCycle +
      of_int (max c (\<lfloor>(nextSunday - knownFullMoon) / lunarCycle\<rfloor> + 1) - c) * lunarCycle"
    by (simp only: fullMoon_loop_closed)
  then show ?thesis
    by (simp add: algebra_simps)
qed

lemma fullMoon_loop_gt: "nextSunday < fullMoon_loop fullMoon nextSunday"
  using fullMoon_loop_steps [of fullMoon nextSunday] by auto

lemma fullMoon_loop_mono:
  assumes "c \<le> c'" "s \<le> s'"
  shows "fullMoon_loop (knownFullMoon + of_int c * lunarCycle) s \<le>
    fullMoon_loop (knownFullMoon + of_int c' * lunarCycle) s'"
proof -
  have "(s - knownFullMoon) / lunarCycle \<le> (s' - knownFullMoon) / lunarCycle"
    using assms(2) lunarCycle_pos by (simp add: divide_right_mono)
  then have "\<lfloor>(s - knownFullMoon) / lunarCycle\<rfloor> \<le> \<lfloor>(s' - knownFullMoon) / lunarCycle\<rfloor>"
    by (rule floor_mono)
  with assms(1) have "max c (\<lfloor>(s - knownFullMoon) / lunarCycle\<rfloor> + 1) \<le>
      max c' (\<lfloor>(s' - knownFullMoon) / lunarCycle\<rfloor> + 1)"
    by linarith
  then have "(of_int (max c (\<lfloor>(s - knownFullMoon) / lunarCycle\<rfloor> + 1)) :: rat) \<le>
      of_int (max c' (\<lfloor>(s' - knownFullMoon) / lunarCycle\<rfloor> + 1))"
    by (simp only: of_int_le_iff)
  then have "of_int (max c (\<lfloor>(s - knownFullMoon) / lunarCycle\<rfloor> + 1)) * lunarCycle \<le>
      of_int (max c' (\<lfloor>(s' - knownFullMoon) / lunarCycle\<rfloor> + 1)) * lunarCycle"
    using lunarCycle_pos by (intro mult_right_mono) simp_all
  then show ?thesis
    unfolding fullMoon_loop_from_known by (rule add_left_mono)
qed

lemma floor_divide_rat_eq_div:
  fixes y :: rat and b :: int
  assumes "0 < b"
  shows "\<lfloor>y / of_int b\<rfloor> = \<lfloor>y\<rfloor> div b"
proof (rule floor_unique)
  have bpos: "(0::rat) < of_int b"
    using assms by simp
  have "b * (\<lfloor>y\<rfloor> div b) \<le> \<lfloor>y\<rfloor>"
    using assms by (metis add.commute add_increasing2 mult_div_mod_eq pos_mod_sign order_refl)
  then have "(of_int (b * (\<lfloor>y\<rfloor> div b)) :: rat) \<le> of_int \<lfloor>y\<rfloor>"
    by (simp only: of_int_le_iff)
  also have "\<dots> \<le> y"
    by simp
  finally have "of_int (\<lfloor>y\<rfloor> div b) * of_int b \<le> y"
    by (simp add: mult.commute)
  then show "of_int (\<lfloor>y\<rfloor> div b) \<le> y / of_int b"
    using bpos by (simp add: pos_le_divide_eq)
  have "\<lfloor>y\<rfloor> + 1 \<le> b * (\<lfloor>y\<rfloor> div b) + b"
    using assms pos_mod_bound [of b "\<lfloor>y\<rfloor>"] mult_div_mod_eq [of b "\<lfloor>y\<rfloor>"] by linarith
  then have "(of_int (\<lfloor>y\<rfloor> + 1) :: rat) \<le> of_int (b * (\<lfloor>y\<rfloor> div b) + b)"
    by (simp only: of_int_le_iff)
  moreover have "y < of_int (\<lfloor>y\<rfloor> + 1)"
    using floor_correct [of y] by simp
  ultimately have "y < (of_int (\<lfloor>y\<rfloor> div b) + 1) * of_int b"
    by (simp add: algebra_simps)
  then show "y / of_int b < of_int (\<lfloor>y\<rfloor> div b) + 1"
    using bpos by (simp add: pos_divide_less_eq)
qed

lemma sunday_mono_days:
  fixes D D' x x' :: int
  assumes "D < D'" "0 \<le> x" "x \<le> 7" "0 \<le> x'"
  shows "D + (if (D + 4) mod 7 = 0 then x else 7 - (D + 4) mod 7) \<le>
    D' + (if (D' + 4) mod 7 = 0 then x' else 7 - (D' + 4) mod 7)"
proof -
  define k w k' w' where "k = (D + 4) div 7" and "w = (D + 4) mod 7"
    and "k' = (D' + 4) div 7" and "w' = (D' + 4) mod 7"
  have eq: "D + 4 = 7 * k + w" "D' + 4 = 7 * k' + w'"
    by (simp_all add: k_def w_def k'_def w'_def)
  have bounds: "0 \<le> w" "w < 7" "0 \<le> w'" "w' < 7"
    by (simp_all add: w_def w'_def)
  have "7 * k < 7 * k' + 7"
    using assms eq bounds by linarith
  then have kk: "k \<le> k'"
    by linarith
  have kk0: "k + 1 \<le> k'" if "w' = 0"
  proof -
    have "7 * k < 7 * k'"
      using that assms eq bounds by linarith
    then show ?thesis by linarith
  qed
  have "D + (if w = 0 then x else 7 - w) \<le> D' + (if w' = 0 then x' else 7 - w')"
  proof (cases "w' = 0")
    case True
    with kk0 have k1: "k + 1 \<le> k'" by simp
    have "w = 0 \<Longrightarrow> D + x \<le> D' + x'" "D + (7 - w) \<le> D' + x'"
      using True k1 assms eq bounds by linarith+
    with True show ?thesis
      by simp
  next
    case False
    have "w = 0 \<Longrightarrow> D + x \<le> D' + (7 - w')" "D + (7 - w) \<le> D' + (7 - w')"
      using False kk assms eq bounds by linarith+
    with False show ?thesis
      by simp
  qed
  then show ?thesis
    by (simp only: w_def w'_def)
qed

lemma sunday_mono_int:
  fixes q q' :: int
  assumes "q \<le> q'"
  shows "q div 1440 +
      (if (q div 1440 + 4) mod 7 = 0 then (if q mod 1440 \<ge> 1215 then 7 else 0)
       else 7 - (q div 1440 + 4) mod 7) \<le>
    q' div 1440 +
      (if (q' div 1440 + 4) mod 7 = 0 then (if q' mod 1440 \<ge> 1215 then 7 else 0)
       else 7 - (q' div 1440 + 4) mod 7)"
proof -
  have le: "q div 1440 \<le> q' div 1440"
    using assms by (simp add: zdiv_mono1)
  show ?thesis
  proof (cases "q div 1440 = q' div 1440")
    case True
    have "q = 1440 * (q div 1440) + q mod 1440" "q' = 1440 * (q' div 1440) + q' mod 1440"
      by simp_all
    with True assms have "q mod 1440 \<le> q' mod 1440"
      by linarith
    with True show ?thesis
      by simp
  next
    case False
    with le have "q div 1440 < q' div 1440"
      by simp
    then show ?thesis
      by (rule sunday_mono_days) simp_all
  qed
qed


lemma Day_minuteNumber: "Day t = minuteNumber t div 1440"
proof -
  have "t / of_int msPerDay = t / of_int msPerMinute / of_int 1440"
    by (simp add: msPerDay_def msPerMinute_def)
  moreover have "\<lfloor>t / of_int msPerMinute / of_int 1440\<rfloor> = \<lfloor>t / of_int msPerMinute\<rfloor> div 1440"
    by (rule floor_divide_rat_eq_div) simp
  ultimately show ?thesis
    unfolding Day_def minuteNumber_def by (simp only:)
qed

lemma HourFromTime_minuteNumber: "HourFromTime t = minuteNumber t div 60 mod 24"
proof -
  have "t / of_int msPerHour = t / of_int msPerMinute / of_int 60"
    by (simp add: msPerHour_def msPerMinute_def)
  moreover have "\<lfloor>t / of_int msPerMinute / of_int 60\<rfloor> = \<lfloor>t / of_int msPerMinute\<rfloor> div 60"
    by (rule floor_divide_rat_eq_div) simp
  ultimately show ?thesis
    unfolding HourFromTime_def minuteNumber_def by (simp only:)
qed

lemma MinFromTime_minuteNumber: "MinFromTime t = minuteNumber t mod 60"
  by (simp add: MinFromTime_def minuteNumber_def)

lemma currentTime_minuteNumber:
  "HourFromTime t * 60 + MinFromTime t = minuteNumber t mod 1440"
proof -
  have "minuteNumber t mod (60 * 24) = 60 * (minuteNumber t div 60 mod 24) + minuteNumber t mod 60"
    by (rule zmod_zmult2_eq) simp
  then show ?thesis
    by (simp add: HourFromTime_minuteNumber MinFromTime_minuteNumber)
qed

lemma minuteNumber_mono: "t \<le> t' \<Longrightarrow> minuteNumber t \<le> minuteNumber t'"
  unfolding minuteNumber_def
  by (intro floor_mono divide_right_mono) (simp_all add: msPerMinute_def)

lemma MakeTime_bounds:
  "0 \<le> MakeTime 20 15 0 0" "MakeTime 20 15 0 0 < msPerDay"
  "0 \<le> MakeTime 0 0 0 0" "MakeTime 0 0 0 0 < msPerDay"
  by (simp_all add: MakeTime_def msPerHour_def msPerMinute_def msPerDay_def)

lemma Day_getNextSundayPrimetime:
  "Day (LocalTime tz (fst (getNextSundayPrimetime tz clk))) =
     (let q = minuteNumber (LocalTime tz (clk 0)) in
      q div 1440 +
      (if (q div 1440 + 4) mod 7 = 0 then (if q mod 1440 \<ge> 1215 then 7 else 0)
       else 7 - (q div 1440 + 4) mod 7))"
proof -
  have "Day (LocalTime tz (fst (getNextSundayPrimetime tz clk))) =
     (let lt = LocalTime tz (clk 0) in
      Day lt +
      (if (Day lt + 4) mod 7 = 0
       then (if HourFromTime lt * 60 + MinFromTime lt \<ge> 1215 then 7 else 0)
       else 7 - (Day lt + 4) mod 7))"
    by (simp add: getNextSundayPrimetime_def newDate_def Let_def Day_setHours MakeTime_bounds
        Day_setDate_plus getDay_def WeekDay_def getHours_def getMinutes_def)
  then show ?thesis
    by (simp add: Let_def currentTime_minuteNumber Day_minuteNumber)
qed

lemma Day_getNextSundayPrimetime_mono:
  assumes "clk 0 \<le> clk' 0"
  shows "Day (LocalTime tz (fst (getNextSundayPrimetime tz clk))) \<le>
    Day (LocalTime tz (fst (getNextSundayPrimetime tz clk')))"
proof -
  have "LocalTime tz (clk 0) \<le> LocalTime tz (clk' 0)"
    using assms by (simp add: LocalTime_def)
  then have "minuteNumber (LocalTime tz (clk 0)) \<le> minuteNumber (LocalTime tz (clk' 0))"
    by (rule minuteNumber_mono)
  then show ?thesis
    unfolding Day_getNextSundayPrimetime Let_def by (rule sunday_mono_int)
qed

lemma nextSunday_eq:
  "setHours tz (fst (getNextSundayPrimetime tz clk)) 0 0 0 0 =
   UTC tz (of_int (Day (LocalTime tz (fst (getNextSundayPrimetime tz clk))) * msPerDay))"
  by (simp add: setHours_def MakeDate_def MakeTime_def)

lemma dayAfter_eq:
  "setHours tz (setDate_plus tz t 1) 6 0 0 0 =
   UTC tz (of_int ((Day (LocalTime tz t) + 1) * msPerDay + MakeTime 6 0 0 0))"
  by (simp add: setHours_def MakeDate_def Day_setDate_plus)

lemma Day_mono: "t \<le> t' \<Longrightarrow> Day t \<le> Day t'"
  unfolding Day_def by (intro floor_mono divide_right_mono) (simp_all add: msPerDay_def)

lemma dayAfter_mono:
  assumes "t \<le> t'"
  shows "setHours tz (setDate_plus tz t 1) 6 0 0 0 \<le> setHours tz (setDate_plus tz t' 1) 6 0 0 0"
proof -
  have "Day (LocalTime tz t) \<le> Day (LocalTime tz t')"
    using assms by (intro Day_mono) (simp add: LocalTime_def)
  then have "(Day (LocalTime tz t) + 1) * msPerDay \<le> (Day (LocalTime tz t') + 1) * msPerDay"
    by (simp add: msPerDay_def)
  then have "(of_int ((Day (LocalTime tz t) + 1) * msPerDay + MakeTime 6 0 0 0) :: rat) \<le>
      of_int ((Day (LocalTime tz t') + 1) * msPerDay + MakeTime 6 0 0 0)"
    by (simp only: of_int_le_iff add_le_cancel_right)
  then show ?thesis
    by (simp add: dayAfter_eq UTC_def)
qed

lemma dayAfter_gt:
  assumes "UTC tz (of_int (d * msPerDay)) < t"
  shows "UTC tz (of_int (d * msPerDay)) < setHours tz (setDate_plus tz t 1) 6 0 0 0"
proof -
  have "(of_int d :: rat) * of_int msPerDay < LocalTime tz t"
    using assms by (simp add: UTC_def LocalTime_def)
  then have "of_int d < LocalTime tz t / of_int msPerDay"
    by (simp add: pos_less_divide_eq msPerDay_def)
  then have "d \<le> Day (LocalTime tz t)"
    unfolding Day_def by (simp add: le_floor_iff)
  then have "d * msPerDay < (Day (LocalTime tz t) + 1) * msPerDay + MakeTime 6 0 0 0"
    by (simp add: msPerDay_def MakeTime_6(1) algebra_simps)
  then have "(of_int (d * msPerDay) :: rat) <
      of_int ((Day (LocalTime tz t) + 1) * msPerDay + MakeTime 6 0 0 0)"
    by (simp only: of_int_less_iff)
  then show ?thesis
    by (simp add: dayAfter_eq UTC_def)
qed

lemma getNextFullMoonMorning_eq:
  "fst (getNextFullMoonMorning tz clk) =
     setHours tz (setDate_plus tz
       (fullMoon_loop (knownFullMoon + of_int \<lfloor>(clk 1 - knownFullMoon) / lunarCycle\<rfloor> * lunarCycle)
          (setHours tz (fst (getNextSundayPrimetime tz clk)) 0 0 0 0)) 1) 6 0 0 0"
  by (simp add: getNextFullMoonMorning_def getNextSundayPrimetime_def newDate_def Let_def
      case_prod_unfold)


text \<open>
  Claim C5. The boundary returned by \<^verbatim>\<open>getNextFullMoonMorning\<close> is strictly after
  the midnight that begins the Sunday of \<^verbatim>\<open>getNextSundayPrimetime\<close>, and it does
  not decrease when the clock advances: a call reads the clock twice, and a
  later call is one whose two readings are not earlier.
\<close>

theorem fullMoon_boundary_after_sunday_and_monotone:
  "setHours tz (fst (getNextSundayPrimetime tz clk)) 0 0 0 0 < fst (getNextFullMoonMorning tz clk) \<and>
   (clk 0 \<le> clk' 0 \<and> clk 1 \<le> clk' 1 \<longrightarrow>
      fst (getNextFullMoonMorning tz clk) \<le> fst (getNextFullMoonMorning tz clk'))"
proof (intro conjI impI)
  show "setHours tz (fst (getNextSundayPrimetime tz clk)) 0 0 0 0 < fst (getNextFullMoonMorning tz clk)"
    unfolding getNextFullMoonMorning_eq nextSunday_eq
    by (rule dayAfter_gt) (rule fullMoon_loop_gt)
next
  assume a: "clk 0 \<le> clk' 0 \<and> clk 1 \<le> clk' 1"
  have "(clk 1 - knownFullMoon) / lunarCycle \<le> (clk' 1 - knownFullMoon) / lunarCycle"
    using a lunarCycle_pos by (simp add: divide_right_mono)
  then have c: "\<lfloor>(clk 1 - knownFullMoon) / lunarCycle\<rfloor> \<le> \<lfloor>(clk' 1 - knownFullMoon) / lunarCycle\<rfloor>"
    by (rule floor_mono)
  have "Day (LocalTime tz (fst (getNextSundayPrimetime tz clk))) * msPerDay \<le>
      Day (LocalTime tz (fst (getNextSundayPrimetime tz clk'))) * msPerDay"
    using Day_getNextSundayPrimetime_mono [of clk clk' tz] a by (simp add: msPerDay_def)
  then have "(of_int (Day (LocalTime tz (fst (getNextSundayPrimetime tz clk))) * msPerDay) :: rat) \<le>
      of_int (Day (LocalTime tz (fst (getNextSundayPrimetime tz clk'))) * msPerDay)"
    by (simp only: of_int_le_iff)
  then have s: "setHours tz (fst (getNextSundayPrimetime tz clk)) 0 0 0 0 \<le>
      setHours tz (fst (getNextSundayPrimetime tz clk')) 0 0 0 0"
    by (simp add: nextSunday_eq UTC_def)
  show "fst (getNextFullMoonMorning tz clk) \<le> fst (getNextFullMoonMorning tz clk')"
    unfolding getNextFullMoonMorning_eq
    by (intro dayAfter_mono fullMoon_loop_mono c s)
qed

theorem fullMoon_boundary_witness:
  "(\<lambda>_. 1784138400000 :: rat) 0 \<le> (\<lambda>_. 1786730400000) 0 \<and>
   (\<lambda>_. 1784138400000 :: rat) 1 \<le> (\<lambda>_. 1786730400000) 1 \<and>
   setHours 0 (fst (getNextSundayPrimetime 0 (\<lambda>_. 1784138400000))) 0 0 0 0
     < fst (getNextFullMoonMorning 0 (\<lambda>_. 1784138400000)) \<and>
   fst (getNextFullMoonMorning 0 (\<lambda>_. 1784138400000))
     \<le> fst (getNextFullMoonMorning 0 (\<lambda>_. 1786730400000))"
  using fullMoon_boundary_after_sunday_and_monotone
    [of 0 "\<lambda>_. 1784138400000" "\<lambda>_. 1786730400000"]
  by simp


text \<open>
  Claim C10. The synodic month is a positive increment, and the search of
  \<^verbatim>\<open>getNextFullMoonMorning\<close> ends: there is a number \<open>n\<close> of iterations such that
  the candidate is at or before the Sunday midnight before each of them, is
  after it once they are done, and the function returns the morning after that
  candidate.
\<close>

theorem getNextFullMoonMorning_terminates:
  "0 < lunarCycle \<and>
   (\<exists>n. let nextSunday = setHours tz (fst (getNextSundayPrimetime tz clk)) 0 0 0 0;
            fullMoon = knownFullMoon + of_int \<lfloor>(clk 1 - knownFullMoon) / lunarCycle\<rfloor> * lunarCycle
        in (\<forall>m<n. fullMoon + of_nat m * lunarCycle \<le> nextSunday) \<and>
           nextSunday < fullMoon + of_nat n * lunarCycle \<and>
           fst (getNextFullMoonMorning tz clk) =
             setHours tz (setDate_plus tz (fullMoon + of_nat n * lunarCycle) 1) 6 0 0 0)"
proof
  show "0 < lunarCycle"
    by (rule lunarCycle_pos)
next
  obtain n where n:
    "fullMoon_loop
       (knownFullMoon + of_int \<lfloor>(clk 1 - knownFullMoon) / lunarCycle\<rfloor> * lunarCycle)
       (setHours tz (fst (getNextSundayPrimetime tz clk)) 0 0 0 0) =
     knownFullMoon + of_int \<lfloor>(clk 1 - knownFullMoon) / lunarCycle\<rfloor> * lunarCycle +
       of_nat n * lunarCycle"
    "setHours tz (fst (getNextSundayPrimetime tz clk)) 0 0 0 0 <
     knownFullMoon + of_int \<lfloor>(clk 1 - knownFullMoon) / lunarCycle\<rfloor> * lunarCycle +
       of_nat n * lunarCycle"
    "\<forall>m<n. knownFullMoon + of_int \<lfloor>(clk 1 - knownFullMoon) / lunarCycle\<rfloor> * lunarCycle +
       of_nat m * lunarCycle \<le> setHours tz (fst (getNextSundayPrimetime tz clk)) 0 0 0 0"
    using fullMoon_loop_steps by blast
  then show "\<exists>n. let nextSunday = setHours tz (fst (getNextSundayPrimetime tz clk)) 0 0 0 0;
            fullMoon = knownFullMoon + of_int \<lfloor>(clk 1 - knownFullMoon) / lunarCycle\<rfloor> * lunarCycle
        in (\<forall>m<n. fullMoon + of_nat m * lunarCycle \<le> nextSunday) \<and>
           nextSunday < fullMoon + of_nat n * lunarCycle \<and>
           fst (getNextFullMoonMorning tz clk) =
             setHours tz (setDate_plus tz (fullMoon + of_nat n * lunarCycle) 1) 6 0 0 0"
    unfolding Let_def getNextFullMoonMorning_eq by (intro exI [of _ n]) simp
qed

theorem getNextFullMoonMorning_terminates_witness:
  "knownFullMoon + 328 * lunarCycle \<le> setHours 0 (fst (getNextSundayPrimetime 0 (\<lambda>_. 1784138400000))) 0 0 0 0 \<and>
   setHours 0 (fst (getNextSundayPrimetime 0 (\<lambda>_. 1784138400000))) 0 0 0 0 < knownFullMoon + 329 * lunarCycle \<and>
   fst (getNextFullMoonMorning 0 (\<lambda>_. 1784138400000)) =
     setHours 0 (setDate_plus 0 (knownFullMoon + 329 * lunarCycle) 1) 6 0 0 0"
proof -
  define S where "S = setHours 0 (fst (getNextSundayPrimetime 0 (\<lambda>_. 1784138400000))) 0 0 0 0"
  define F where "F = knownFullMoon + of_int \<lfloor>((\<lambda>_. 1784138400000 :: rat) 1 - knownFullMoon) / lunarCycle\<rfloor> * lunarCycle"
  have S: "S = 1784419200000"
    unfolding S_def by code_simp
  have K: "knownFullMoon = 947182440000"
    by code_simp
  have c: "\<lfloor>((\<lambda>_. 1784138400000 :: rat) 1 - knownFullMoon) / lunarCycle\<rfloor> = 328"
    by code_simp
  have F: "F = knownFullMoon + 328 * lunarCycle"
    unfolding F_def c by simp
  have lo: "F \<le> S" and hi: "S < F + lunarCycle"
    unfolding F S K by (simp_all add: lunarCycle_def)
  from getNextFullMoonMorning_terminates [of 0 "\<lambda>_. 1784138400000"]
  obtain n where n: "\<forall>m<n. F + of_nat m * lunarCycle \<le> S" "S < F + of_nat n * lunarCycle"
    "fst (getNextFullMoonMorning 0 (\<lambda>_. 1784138400000)) =
       setHours 0 (setDate_plus 0 (F + of_nat n * lunarCycle) 1) 6 0 0 0"
    unfolding Let_def S_def F_def by blast
  have "n \<noteq> 0"
  proof
    assume "n = 0"
    with n(2) lo show False by simp
  qed
  moreover have "\<not> 1 < n"
  proof
    assume "1 < n"
    with n(1) have "F + of_nat 1 * lunarCycle \<le> S" by blast
    with hi show False by simp
  qed
  ultimately have "n = 1"
    by simp
  with n(3) lo hi show ?thesis
    unfolding S_def [symmetric] F by (simp add: algebra_simps)
qed

section \<open>Properties of the filter\<close>

lemma filterEvents_callback_eq:
  "filterEvents_callback parseDate calculateDistance bookmarks maxEventTime maxDistance' category' referenceLocation h r =
     (is_kept parseDate calculateDistance bookmarks maxEventTime maxDistance' category' referenceLocation (h r),
      h(r := write_distance parseDate calculateDistance bookmarks maxEventTime category' referenceLocation (h r)))"
  by (auto simp: filterEvents_callback_def is_kept_def write_distance_def is_measured_def
      passes_time_def passes_category_def passes_distance_def distance_to_def greater_than_def Let_def
      split: option.splits number.splits)

lemma is_kept_distance_update [simp]:
  "is_kept parseDate calculateDistance bookmarks maxEventTime maxDistance' category' referenceLocation
     (ev\<lparr>distance := d\<rparr>) =
   is_kept parseDate calculateDistance bookmarks maxEventTime maxDistance' category' referenceLocation ev"
  by (simp add: is_kept_def passes_time_def passes_category_def passes_distance_def
      distance_to_def)

lemma is_measured_distance_update [simp]:
  "is_measured parseDate bookmarks maxEventTime category' (ev\<lparr>distance := d\<rparr>) =
   is_measured parseDate bookmarks maxEventTime category' ev"
  by (simp add: is_measured_def passes_time_def passes_category_def)

lemma is_kept_write_distance:
  "is_kept parseDate calculateDistance bookmarks maxEventTime maxDistance' category' referenceLocation
     (write_distance parseDate calculateDistance bookmarks maxEventTime category' referenceLocation ev) =
   is_kept parseDate calculateDistance bookmarks maxEventTime maxDistance' category' referenceLocation ev"
  by (simp add: write_distance_def split: option.splits)

lemma write_distance_idem:
  "write_distance parseDate calculateDistance bookmarks maxEventTime category' referenceLocation
     (write_distance parseDate calculateDistance bookmarks maxEventTime category' referenceLocation ev) =
   write_distance parseDate calculateDistance bookmarks maxEventTime category' referenceLocation ev"
  by (simp add: write_distance_def distance_to_def split: option.splits)

lemma Array_filter_char:
  assumes KW: "\<And>e. K (W e) = K e"
    and WW: "\<And>e. W (W e) = W e"
  shows "Array_filter (\<lambda>h r. (K (h r), h(r := W (h r)))) h rs =
    (filter (\<lambda>r. K (h r)) rs, \<lambda>r. if r \<in> set rs then W (h r) else h r)"
proof (induction rs arbitrary: h)
  case Nil
  show ?case by simp
next
  case (Cons r rs)
  let ?cb = "\<lambda>h r. (K (h r), h(r := W (h r)))"
  let ?h1 = "h(r := W (h r))"
  have A: "filter (\<lambda>x. K (?h1 x)) rs = filter (\<lambda>x. K (h x)) rs"
    by (rule filter_cong) (simp_all add: KW)
  have B: "(\<lambda>x. if x \<in> set rs then W (?h1 x) else ?h1 x) =
      (\<lambda>x. if x \<in> set (r # rs) then W (h x) else h x)"
    by (auto simp: fun_eq_iff WW)
  have "Array_filter ?cb h (r # rs) =
      (if K (h r) then r # fst (Array_filter ?cb ?h1 rs) else fst (Array_filter ?cb ?h1 rs),
       snd (Array_filter ?cb ?h1 rs))"
    by (simp only: Array_filter.simps Let_def case_prod_beta fst_conv snd_conv)
  then have "Array_filter ?cb h (r # rs) =
      (if K (h r) then r # filter (\<lambda>x. K (?h1 x)) rs else filter (\<lambda>x. K (?h1 x)) rs,
       \<lambda>x. if x \<in> set rs then W (?h1 x) else ?h1 x)"
    by (simp only: Cons.IH fst_conv snd_conv)
  then show ?case
    by (simp only: A B filter.simps)
qed

lemma Array_filter_callback:
  "Array_filter
     (filterEvents_callback parseDate calculateDistance bookmarks maxEventTime maxDistance' category' referenceLocation)
     h rs =
   (filter (\<lambda>r. is_kept parseDate calculateDistance bookmarks maxEventTime maxDistance' category' referenceLocation (h r)) rs,
    \<lambda>r. if r \<in> set rs
        then write_distance parseDate calculateDistance bookmarks maxEventTime category' referenceLocation (h r)
        else h r)"
proof -
  have "filterEvents_callback parseDate calculateDistance bookmarks maxEventTime maxDistance' category' referenceLocation =
      (\<lambda>h r. (is_kept parseDate calculateDistance bookmarks maxEventTime maxDistance' category' referenceLocation (h r),
         h(r := write_distance parseDate calculateDistance bookmarks maxEventTime category' referenceLocation (h r))))"
    by (intro ext) (rule filterEvents_callback_eq)
  then show ?thesis
    by (simp only: Array_filter_char [of "is_kept parseDate calculateDistance bookmarks maxEventTime maxDistance' category' referenceLocation"
          "write_distance parseDate calculateDistance bookmarks maxEventTime category' referenceLocation",
          OF is_kept_write_distance write_distance_idem])
qed

text \<open>
  Claim C3, as the code has it. \<^verbatim>\<open>filterEvents\<close> returns references to the
  original event objects, the kept ones in input order, and it writes the
  computed distance onto every original event of the input that is bookmarked
  or passes the time and category gates, when both locations are present; this
  includes events that the distance gate then rejects. Nothing else in the
  store changes.
\<close>

theorem filterEvents_returns_originals_and_writes_distance:
  "fst (filterEvents tz parseDate calculateDistance bookmarks clk h events filters' referenceLocation) =
     filter (\<lambda>r. is_kept parseDate calculateDistance bookmarks
                   (fst (getMaxEventTime tz clk (timeFilter filters')))
                   (maxDistance filters') (filter_category filters') referenceLocation (h r))
       events \<and>
   fst (snd (filterEvents tz parseDate calculateDistance bookmarks clk h events filters' referenceLocation)) =
     (\<lambda>r. if r \<in> set events
          then write_distance parseDate calculateDistance bookmarks
                 (fst (getMaxEventTime tz clk (timeFilter filters')))
                 (filter_category filters') referenceLocation (h r)
          else h r)"
  by (simp add: filterEvents_def Let_def case_prod_beta Array_filter_callback)


text \<open>
  Claim C3 as stated fails. The clock reads 2026-07-20T06:46:40 UTC, the host
  is at UTC, and the event starts at 10:00, within the six hours of the filter;
  the event and the reference location have the same coordinates, for which
  the haversine formula gives 0 in doubles. The event at reference 0 has no
  distance before the call; the call returns that same reference, and the event
  at reference 0 has the distance 0 afterwards.
\<close>

theorem filterEvents_mutates_input_counterexample:
  "distance ((\<lambda>_. \<lparr>event_id = Some ''e1'', title = ''Market Day'', category = Some ''culture'',
        start_time = ''2026-07-20T10:00:00'', end_time = ''2026-07-20T12:00:00'',
        location = Some \<lparr>lat = 50.315, lon = 11.918, loc_name = ''Town Square''\<rparr>,
        distance = None, relative_time = None, published_at = None\<rparr>) (0::nat)) = None \<and>
   fst (filterEvents 0 (\<lambda>s. if s = ''2026-07-20T10:00:00'' then Some 1784541600000 else None)
      (\<lambda>lat1 lon1 lat2 lon2. if lat1 = lat2 \<and> lon1 = lon2 then Num 0 else NaN) [] (\<lambda>_. 1784530000000)
      (\<lambda>_. \<lparr>event_id = Some ''e1'', title = ''Market Day'', category = Some ''culture'',
        start_time = ''2026-07-20T10:00:00'', end_time = ''2026-07-20T12:00:00'',
        location = Some \<lparr>lat = 50.315, lon = 11.918, loc_name = ''Town Square''\<rparr>,
        distance = None, relative_time = None, published_at = None\<rparr>)
      [0] \<lparr>maxDistance = 10, timeFilter = ''6h'', filter_category = ''all''\<rparr>
      (Some \<lparr>lat = 50.315, lon = 11.918\<rparr>)) = [0] \<and>
   distance (fst (snd (filterEvents 0 (\<lambda>s. if s = ''2026-07-20T10:00:00'' then Some 1784541600000 else None)
      (\<lambda>lat1 lon1 lat2 lon2. if lat1 = lat2 \<and> lon1 = lon2 then Num 0 else NaN) [] (\<lambda>_. 1784530000000)
      (\<lambda>_. \<lparr>event_id = Some ''e1'', title = ''Market Day'', category = Some ''culture'',
        start_time = ''2026-07-20T10:00:00'', end_time = ''2026-07-20T12:00:00'',
        location = Some \<lparr>lat = 50.315, lon = 11.918, loc_name = ''Town Square''\<rparr>,
        distance = None, relative_time = None, published_at = None\<rparr>)
      [0] \<lparr>maxDistance = 10, timeFilter = ''6h'', filter_category = ''all''\<rparr>
      (Some \<lparr>lat = 50.315, lon = 11.918\<rparr>))) 0) = Some (Num 0)"
  by (simp add: filterEvents_def getMaxEventTime_def newDate_def filterEvents_callback_def
      isBookmarked_def greater_than_def Let_def)

lemma total_count_update:
  "total_count (AList.update k v m) +
      (case map_of m k of Some u \<Rightarrow> count_of u | None \<Rightarrow> 0) =
    total_count m + count_of v"
  by (induction m) (auto simp: total_count_def)

lemma all_counts_update:
  "all_counts m \<Longrightarrow> is_count v \<Longrightarrow> all_counts (AList.update k v m)"
  by (induction m) (auto simp: all_counts_def)

lemma all_counts_map_of:
  "all_counts m \<Longrightarrow> map_of m k = Some v \<Longrightarrow> is_count v"
  by (induction m) (auto simp: all_counts_def split: if_splits)

lemma count_category_other:
  assumes counts: "all_counts m"
    and name: "category_name ev \<noteq> ''__proto__''"
      "category_name ev \<notin> set objectPrototypeFunctions"
  shows "all_counts (count_category nativeSource m ev) \<and>
    total_count (count_category nativeSource m ev) = total_count m + 1"
proof (cases "map_of m (category_name ev)")
  case None
  then have "count_category nativeSource m ev = AList.update (category_name ev) (JSNumber 1) m"
    using name
    by (simp add: count_category_def category_name_def [symmetric] object_get_def
        object_set_def or_zero_def plus_one_def)
  then show ?thesis
    using counts None total_count_update [of "category_name ev" "JSNumber 1" m]
    by (simp add: all_counts_update is_count_def count_of_def)
next
  case (Some v)
  with counts have "is_count v"
    by (rule all_counts_map_of)
  then obtain n where v: "v = JSNumber n"
    by (cases v) (simp_all add: is_count_def)
  have "count_category nativeSource m ev =
      AList.update (category_name ev) (JSNumber (n + 1)) m"
    using name Some v
    by (simp add: count_category_def category_name_def [symmetric] object_get_def
        object_set_def or_zero_def plus_one_def)
  then show ?thesis
    using counts Some v total_count_update [of "category_name ev" "JSNumber (n + 1)" m]
    by (simp add: all_counts_update is_count_def count_of_def)
qed

lemma countCategories_callback_eq:
  "countCategories_callback parseDate calculateDistance nativeSource bookmarks maxEventTime
     maxDistance' referenceLocation h m r =
     (if is_kept parseDate calculateDistance bookmarks maxEventTime maxDistance' ''all''
           referenceLocation (h r)
      then count_category nativeSource m (h r) else m)"
  by (auto simp: countCategories_callback_def is_kept_def passes_time_def passes_category_def
      passes_distance_def distance_to_def greater_than_def Let_def
      split: option.splits number.splits)

lemma countCategories_foldl_other:
  assumes "all_counts m"
    and "\<forall>r\<in>set rs. category_name (h r) \<noteq> ''__proto__'' \<and>
           category_name (h r) \<notin> set objectPrototypeFunctions"
  shows "all_counts
      (foldl (countCategories_callback parseDate calculateDistance nativeSource bookmarks
         maxEventTime maxDistance' referenceLocation h) m rs) \<and>
    total_count
      (foldl (countCategories_callback parseDate calculateDistance nativeSource bookmarks
         maxEventTime maxDistance' referenceLocation h) m rs) =
    total_count m +
    length (filter (\<lambda>r. is_kept parseDate calculateDistance bookmarks maxEventTime maxDistance'
       ''all'' referenceLocation (h r)) rs)"
  using assms
proof (induction rs arbitrary: m)
  case Nil
  then show ?case by simp
next
  case (Cons r rs)
  have rs: "\<forall>r\<in>set rs. category_name (h r) \<noteq> ''__proto__'' \<and>
      category_name (h r) \<notin> set objectPrototypeFunctions"
    using Cons.prems(2) by simp
  show ?case
  proof (cases "is_kept parseDate calculateDistance bookmarks maxEventTime maxDistance'
      ''all'' referenceLocation (h r)")
    case True
    have step: "all_counts (count_category nativeSource m (h r)) \<and>
        total_count (count_category nativeSource m (h r)) = total_count m + 1"
      using Cons.prems(2) by (intro count_category_other [OF Cons.prems(1)]) simp_all
    then have "all_counts (count_category nativeSource m (h r))"
      by simp
    from Cons.IH [OF this rs] step True show ?thesis
      by (simp add: countCategories_callback_eq)
  next
    case False
    with Cons.IH [OF Cons.prems(1) rs] show ?thesis
      by (simp add: countCategories_callback_eq)
  qed
qed

lemma countCategories_sum_on_other_categories:
  assumes "\<forall>r\<in>set events. category_name (h r) \<noteq> ''__proto__'' \<and>
           category_name (h r) \<notin> set objectPrototypeFunctions"
  shows "total_count
      (fst (countCategoriesUnderFilters tz parseDate calculateDistance nativeSource bookmarks clk
         h events filters' referenceLocation)) =
    length (fst (filterEvents tz parseDate calculateDistance bookmarks clk h events
       (filters'\<lparr>filter_category := ''all''\<rparr>) referenceLocation))"
proof -
  have "all_counts []"
    by (simp add: all_counts_def)
  from countCategories_foldl_other [OF this assms] show ?thesis
    by (simp add: countCategoriesUnderFilters_def filterEvents_def Let_def case_prod_beta
        Array_filter_callback total_count_def)
qed

text \<open>
  Claim C6 does not hold of the code. The one event of the list has the
  category \<^verbatim>\<open>__proto__\<close>, starts within the six hours of the filter and is
  returned by \<^verbatim>\<open>filterEvents\<close> under the category \<^verbatim>\<open>'all'\<close>, while
  \<^verbatim>\<open>countCategoriesUnderFilters\<close> returns the object without any own property,
  so that its counts add up to 0 and not to 1: \<^verbatim>\<open>categoryCounts['__proto__']\<close>
  reads \<^verbatim>\<open>Object.prototype\<close>, and the assignment of the string
  \<^verbatim>\<open>"[object Object]1"\<close> is ignored. For lists without a category named like a
  property of \<^verbatim>\<open>Object.prototype\<close> the sums agree
  (\<open>countCategories_sum_on_other_categories\<close>).
\<close>

theorem countCategories_proto_category_not_counted:
  "fst (countCategoriesUnderFilters 0 (\<lambda>s. if s = ''2026-07-20T10:00:00'' then Some 1784541600000 else None)
      (\<lambda>lat1 lon1 lat2 lon2. if lat1 = lat2 \<and> lon1 = lon2 then Num 0 else NaN)
      (\<lambda>name. ''function '' @ (if name = ''constructor'' then ''Object'' else name) @ ''() { [native code] }'')
      [] (\<lambda>_. 1784530000000)
      (\<lambda>_. \<lparr>event_id = Some ''e1'', title = ''Market Day'', category = Some ''__proto__'',
        start_time = ''2026-07-20T10:00:00'', end_time = ''2026-07-20T12:00:00'',
        location = None, distance = None, relative_time = None, published_at = None\<rparr>)
      [0] \<lparr>maxDistance = 10, timeFilter = ''6h'', filter_category = ''all''\<rparr> None) = [] \<and>
   total_count (fst (countCategoriesUnderFilters 0 (\<lambda>s. if s = ''2026-07-20T10:00:00'' then Some 1784541600000 else None)
      (\<lambda>lat1 lon1 lat2 lon2. if lat1 = lat2 \<and> lon1 = lon2 then Num 0 else NaN)
      (\<lambda>name. ''function '' @ (if name = ''constructor'' then ''Object'' else name) @ ''() { [native code] }'')
      [] (\<lambda>_. 1784530000000)
      (\<lambda>_. \<lparr>event_id = Some ''e1'', title = ''Market Day'', category = Some ''__proto__'',
        start_time = ''2026-07-20T10:00:00'', end_time = ''2026-07-20T12:00:00'',
        location = None, distance = None, relative_time = None, published_at = None\<rparr>)
      [0] \<lparr>maxDistance = 10, timeFilter = ''6h'', filter_category = ''all''\<rparr> None)) = 0 \<and>
   length (fst (filterEvents 0 (\<lambda>s. if s = ''2026-07-20T10:00:00'' then Some 1784541600000 else None)
      (\<lambda>lat1 lon1 lat2 lon2. if lat1 = lat2 \<and> lon1 = lon2 then Num 0 else NaN) [] (\<lambda>_. 1784530000000)
      (\<lambda>_. \<lparr>event_id = Some ''e1'', title = ''Market Day'', category = Some ''__proto__'',
        start_time = ''2026-07-20T10:00:00'', end_time = ''2026-07-20T12:00:00'',
        location = None, distance = None, relative_time = None, published_at = None\<rparr>)
      [0] \<lparr>maxDistance = 10, timeFilter = ''6h'', filter_category = ''all''\<rparr>
      None)) = 1"
  by (simp add: countCategoriesUnderFilters_def countCategories_callback_def count_category_def
      object_get_def object_set_def or_zero_def plus_one_def filterEvents_def getMaxEventTime_def
      newDate_def filterEvents_callback_def isBookmarked_def total_count_def Let_def)

lemma getNextSunrise_reads:
  "clk 0 = clk' 0 \<Longrightarrow> fst (getNextSunrise tz clk) = fst (getNextSunrise tz clk')"
  by (simp add: getNextSunrise_def newDate_def Let_def)

lemma getNextSundayPrimetime_reads:
  "clk 0 = clk' 0 \<Longrightarrow> fst (getNextSundayPrimetime tz clk) = fst (getNextSundayPrimetime tz clk')"
  by (simp add: getNextSundayPrimetime_def newDate_def Let_def)

lemma getNextFullMoonMorning_reads:
  "clk 0 = clk' 0 \<Longrightarrow> clk 1 = clk' 1 \<Longrightarrow>
   fst (getNextFullMoonMorning tz clk) = fst (getNextFullMoonMorning tz clk')"
  by (simp add: getNextFullMoonMorning_def getNextSundayPrimetime_def newDate_def Let_def)

lemma getMaxEventTime_reads:
  assumes "clk 0 = clk' 0" "clk 1 = clk' 1" "clk 2 = clk' 2"
  shows "fst (getMaxEventTime tz clk timeFilter') = fst (getMaxEventTime tz clk' timeFilter')"
proof -
  have s: "fst (getNextSunrise tz (\<lambda>n. clk (Suc n))) = fst (getNextSunrise tz (\<lambda>n. clk' (Suc n)))"
    by (rule getNextSunrise_reads) (use assms(2) in simp)
  have p: "fst (getNextSundayPrimetime tz (\<lambda>n. clk (Suc n))) =
      fst (getNextSundayPrimetime tz (\<lambda>n. clk' (Suc n)))"
    by (rule getNextSundayPrimetime_reads) (use assms(2) in simp)
  have m: "fst (getNextFullMoonMorning tz (\<lambda>n. clk (Suc n))) =
      fst (getNextFullMoonMorning tz (\<lambda>n. clk' (Suc n)))"
    by (rule getNextFullMoonMorning_reads) (use assms(2,3) in \<open>simp_all add: numeral_2_eq_2\<close>)
  show ?thesis
    using s p m assms(1) by (simp add: getMaxEventTime_def newDate_def Let_def)
qed

text \<open>
  Claim C2, as the code has it. The clock is not an argument of
  \<^verbatim>\<open>filterEvents\<close>: \<^verbatim>\<open>getMaxEventTime\<close> and the boundary functions read it with
  \<^verbatim>\<open>new Date()\<close>, up to three times in one call. Two calls with the same events,
  store, settings, reference location, bookmarks and host that get the same
  three clock readings return the same events and leave the same store.
\<close>

theorem filterEvents_determined_by_clock_readings:
  "clk 0 = clk' 0 \<and> clk 1 = clk' 1 \<and> clk 2 = clk' 2 \<longrightarrow>
   fst (filterEvents tz parseDate calculateDistance bookmarks clk h events filters' referenceLocation) =
   fst (filterEvents tz parseDate calculateDistance bookmarks clk' h events filters' referenceLocation) \<and>
   fst (snd (filterEvents tz parseDate calculateDistance bookmarks clk h events filters' referenceLocation)) =
   fst (snd (filterEvents tz parseDate calculateDistance bookmarks clk' h events filters' referenceLocation))"
proof
  assume "clk 0 = clk' 0 \<and> clk 1 = clk' 1 \<and> clk 2 = clk' 2"
  then have "fst (getMaxEventTime tz clk (timeFilter filters')) =
      fst (getMaxEventTime tz clk' (timeFilter filters'))"
    by (intro getMaxEventTime_reads) simp_all
  then show "fst (filterEvents tz parseDate calculateDistance bookmarks clk h events filters' referenceLocation) =
      fst (filterEvents tz parseDate calculateDistance bookmarks clk' h events filters' referenceLocation) \<and>
    fst (snd (filterEvents tz parseDate calculateDistance bookmarks clk h events filters' referenceLocation)) =
      fst (snd (filterEvents tz parseDate calculateDistance bookmarks clk' h events filters' referenceLocation))"
    by (simp add: filterEvents_def Let_def case_prod_beta)
qed


text \<open>
  Two clocks that agree on their first three readings and differ afterwards.
\<close>

theorem filterEvents_determined_by_clock_readings_witness:
  "(\<lambda>n::nat. if n < 3 then 0 else 86400000 :: rat) 0 = (\<lambda>_. 0) 0 \<and>
   (\<lambda>n::nat. if n < 3 then 0 else 86400000 :: rat) 1 = (\<lambda>_. 0) 1 \<and>
   (\<lambda>n::nat. if n < 3 then 0 else 86400000 :: rat) 2 = (\<lambda>_. 0) 2 \<and>
   fst (filterEvents 0 (\<lambda>s. if s = ''1970-01-01T08:20:00'' then Some 30000000 else None)
      (\<lambda>lat1 lon1 lat2 lon2. if lat1 = lat2 \<and> lon1 = lon2 then Num 0 else NaN) []
      (\<lambda>n. if n < 3 then 0 else 86400000)
      (\<lambda>_. \<lparr>event_id = Some ''e1'', title = ''Market Day'', category = Some ''culture'',
        start_time = ''1970-01-01T08:20:00'', end_time = ''1970-01-01T10:20:00'',
        location = None, distance = None, relative_time = None, published_at = None\<rparr>)
      [0] \<lparr>maxDistance = 10, timeFilter = ''full-moon'', filter_category = ''all''\<rparr> None) =
   fst (filterEvents 0 (\<lambda>s. if s = ''1970-01-01T08:20:00'' then Some 30000000 else None)
      (\<lambda>lat1 lon1 lat2 lon2. if lat1 = lat2 \<and> lon1 = lon2 then Num 0 else NaN) []
      (\<lambda>_. 0)
      (\<lambda>_. \<lparr>event_id = Some ''e1'', title = ''Market Day'', category = Some ''culture'',
        start_time = ''1970-01-01T08:20:00'', end_time = ''1970-01-01T10:20:00'',
        location = None, distance = None, relative_time = None, published_at = None\<rparr>)
      [0] \<lparr>maxDistance = 10, timeFilter = ''full-moon'', filter_category = ''all''\<rparr> None)"
  using filterEvents_determined_by_clock_readings
    [of "\<lambda>n. if n < 3 then 0 else 86400000" "\<lambda>_. 0" 0
        "\<lambda>s. if s = ''1970-01-01T08:20:00'' then Some 30000000 else None"
        "\<lambda>lat1 lon1 lat2 lon2. if lat1 = lat2 \<and> lon1 = lon2 then Num 0 else NaN" "[]"
        "\<lambda>_. \<lparr>event_id = Some ''e1'', title = ''Market Day'', category = Some ''culture'',
        start_time = ''1970-01-01T08:20:00'', end_time = ''1970-01-01T10:20:00'',
        location = None, distance = None, relative_time = None, published_at = None\<rparr>"
        "[0]" "\<lparr>maxDistance = 10, timeFilter = ''full-moon'', filter_category = ''all''\<rparr>" None]
  by simp

text \<open>
  Claim C2 as stated fails: with the same explicit arguments and bookmarks, an
  event that starts at 08:20 is rejected when the clock reads 00:00 and kept
  when it reads 05:33:20, under the filter \<^verbatim>\<open>'6h'\<close>.
\<close>

theorem filterEvents_hidden_clock_counterexample:
  "fst (filterEvents 0 (\<lambda>s. if s = ''1970-01-01T08:20:00'' then Some 30000000 else None)
      (\<lambda>lat1 lon1 lat2 lon2. if lat1 = lat2 \<and> lon1 = lon2 then Num 0 else NaN) []
      (\<lambda>_. 0)
      (\<lambda>_. \<lparr>event_id = Some ''e1'', title = ''Market Day'', category = Some ''culture'',
        start_time = ''1970-01-01T08:20:00'', end_time = ''1970-01-01T10:20:00'',
        location = None, distance = None, relative_time = None, published_at = None\<rparr>)
      [0] \<lparr>maxDistance = 10, timeFilter = ''6h'', filter_category = ''all''\<rparr> None) = [] \<and>
   fst (filterEvents 0 (\<lambda>s. if s = ''1970-01-01T08:20:00'' then Some 30000000 else None)
      (\<lambda>lat1 lon1 lat2 lon2. if lat1 = lat2 \<and> lon1 = lon2 then Num 0 else NaN) []
      (\<lambda>_. 20000000)
      (\<lambda>_. \<lparr>event_id = Some ''e1'', title = ''Market Day'', category = Some ''culture'',
        start_time = ''1970-01-01T08:20:00'', end_time = ''1970-01-01T10:20:00'',
        location = None, distance = None, relative_time = None, published_at = None\<rparr>)
      [0] \<lparr>maxDistance = 10, timeFilter = ''6h'', filter_category = ''all''\<rparr> None) = [0]"
  by (simp add: filterEvents_def getMaxEventTime_def newDate_def filterEvents_callback_def
      isBookmarked_def Let_def)

section \<open>Properties of the template events\<close>

lemma processTemplateEvent_plain:
  "relative_time ev = None \<Longrightarrow> processTemplateEvent tz now clk ev = (ev, clk)"
  by (simp add: processTemplateEvent_def)

lemma processTemplateEvent_fields:
  "relative_time ev = Some spec \<Longrightarrow>
   published_at (fst (processTemplateEvent tz now clk ev)) = Some (formatDateTime tz now) \<and>
   relative_time (fst (processTemplateEvent tz now clk ev)) = Some spec"
  by (simp add: processTemplateEvent_def Let_def case_prod_beta)


lemma Array_map_fields:
  "map published_at (fst (Array_map (processTemplateEvent tz now) clk events)) =
     map (\<lambda>ev. if relative_time ev = None then published_at ev
               else Some (formatDateTime tz now)) events \<and>
   map relative_time (fst (Array_map (processTemplateEvent tz now) clk events)) =
     map relative_time events"
proof (induction events arbitrary: clk)
  case Nil
  show ?case by simp
next
  case (Cons ev events)
  show ?case
  proof (cases "relative_time ev")
    case None
    then show ?thesis
      using Cons.IH by (simp add: processTemplateEvent_plain case_prod_beta)
  next
    case (Some spec)
    then show ?thesis
      using Cons.IH processTemplateEvent_fields [OF Some, of tz now clk]
      by (simp add: case_prod_beta)
  qed
qed

text \<open>
  Claim C8, as the code has it. Every event that \<^verbatim>\<open>processTemplateEvents\<close> makes
  from a template has \<^verbatim>\<open>published_at\<close> set to the formatted clock reading, and
  every event of the output has the \<^verbatim>\<open>relative_time\<close> of its input: the copy
  \<^verbatim>\<open>{ ...event }\<close> keeps the field and nothing deletes it.
\<close>

theorem processTemplateEvents_stamps_and_keeps_spec:
  "map published_at (fst (processTemplateEvents tz clk events)) =
     map (\<lambda>ev. if relative_time ev = None then published_at ev
               else Some (formatDateTime tz (clk 0))) events \<and>
   map relative_time (fst (processTemplateEvents tz clk events)) = map relative_time events"
  by (simp add: processTemplateEvents_def newDate_def Array_map_fields)

text \<open>
  Claim C8 as stated fails: the processed demo event still carries its
  \<^verbatim>\<open>relative_time\<close>.
\<close>

theorem processTemplateEvents_keeps_spec_counterexample:
  "map relative_time (fst (processTemplateEvents 0 (\<lambda>_. 1784138400000)
     [\<lparr>event_id = Some ''demo_happening_now'', title = ''[DEMO] Event Happening Now'',
       category = Some ''culture'',
       start_time = ''2026-01-02T12:00:00'', end_time = ''2026-01-02T14:00:00'',
       location = None, distance = None,
       relative_time = Some \<lparr>rt_type = ''offset'', hours = None, minutes = Some (- 30),
         duration_hours = Some 2, timezone_offset = None, start_offset_hours = None,
         start_offset_minutes = None, end_offset_hours = None, end_offset_minutes = None\<rparr>,
       published_at = None\<rparr>])) =
   [Some \<lparr>rt_type = ''offset'', hours = None, minutes = Some (- 30),
         duration_hours = Some 2, timezone_offset = None, start_offset_hours = None,
         start_offset_minutes = None, end_offset_hours = None, end_offset_minutes = None\<rparr>]"
  by code_simp




end
